theory Spec2Isabelle
  imports Main
begin

section \<open>The request and response envelopes of api/common.go\<close>

text \<open>
  Go strings and byte slices are sequences of bytes; an Isabelle \<open>char\<close> is one byte,
  so both are modelled as \<open>string\<close>.
\<close>

type_synonym bytes = string

text \<open>\<open>RequestPayload\<close> (common.go, lines 26-36): nine string fields.\<close>

record RequestPayload =
  TimeStamp :: string
  Method :: string
  Charset :: string
  Sign :: string
  Check :: string
  BizContent :: string
  ReqID :: string
  CertID :: string
  Version :: string

text \<open>
  \<open>ResponsePayload\<close> (lines 115-125). Its fields \<open>TimeStamp\<close> and \<open>Sign\<close> are written
  \<open>RespTimeStamp\<close> and \<open>RespSign\<close> here, since a field name is a constant of the theory
  and the request envelope has taken both.
\<close>

record ResponsePayload =
  Code :: string
  Msg :: string
  SubCode :: string
  SubMsg :: string
  RespTimeStamp :: string
  Norce :: string
  RespSign :: string
  BusinessData :: string

text \<open>
  \<open>Config\<close> (lines 127-132). Its field \<open>CertID\<close> is written \<open>ConfCertID\<close>, for the same
  reason.
\<close>

record Config =
  ConfCertID :: string
  PrivateKey :: string
  PublicKey :: string

text \<open>
  Errors. An error made by \<open>fmt.Errorf\<close> with an ASCII format is \<open>Errorf\<close> of the
  formatted text; the wrappers of lines 235-282 and 321-377, whose labels are Chinese
  text followed by the wrapped error, keep the wrapped error under a constructor that
  says which step failed; an error value that a collaborator (the crypto library, the
  operating system, net/http, encoding/json) returns is \<open>LibError\<close> of its text.
\<close>

datatype step =
    MarshalStep       \<comment> \<open>json.Marshal of the envelope, line 235\<close>
  | NewRequestStep    \<comment> \<open>http.NewRequest, lines 245 and 345\<close>
  | DoStep            \<comment> \<open>client.Do, lines 254 and 354\<close>
  | ReadBodyStep      \<comment> \<open>io.ReadAll, lines 264 and 365\<close>
  | UnmarshalStep     \<comment> \<open>json.Unmarshal of the body, lines 282 and 377\<close>
  | CopyFileStep      \<comment> \<open>io.Copy of the file into the form, line 325\<close>

datatype error =
    LibError string
  | CorruptInputError
  | Errorf string
  | Failed step error
  | Non200 int

text \<open>
  The business data handed back to the caller is an \<open>xmap.M\<close>, a Go map from strings
  to arbitrary JSON values. Numbers are kept as their literal text.
\<close>

datatype json =
    JNull
  | JBool bool
  | JNumber string
  | JString string
  | JArray "json list"
  | JObject "(string \<times> json) list"

type_synonym xmapM = "(string \<times> json) list"

section \<open>Base64 (encoding/base64, StdEncoding)\<close>

definition encodeStd :: string where
  "encodeStd = ''ABCDEFGHIJKLMNOPQRSTUVWXYZabcdefghijklmnopqrstuvwxyz0123456789+/''"

definition sextet :: "nat \<Rightarrow> char" where
  "sextet n = encodeStd ! (n mod 64)"

text \<open>
  \<open>EncodeToString\<close>: three bytes give four characters; a last group of one or two bytes
  is padded with \<open>=\<close>.
\<close>

fun EncodeToString :: "bytes \<Rightarrow> string" where
  "EncodeToString [] = []"
| "EncodeToString [a] =
     (let val = (of_char a :: nat) * 65536
      in [sextet (val div 262144), sextet (val div 4096), CHR ''='', CHR ''=''])"
| "EncodeToString [a, b] =
     (let val = (of_char a :: nat) * 65536 + of_char b * 256
      in [sextet (val div 262144), sextet (val div 4096), sextet (val div 64), CHR ''=''])"
| "EncodeToString (a # b # c # rest) =
     (let val = (of_char a :: nat) * 65536 + of_char b * 256 + of_char c
      in [sextet (val div 262144), sextet (val div 4096), sextet (val div 64), sextet val]
         @ EncodeToString rest)"

text \<open>
  The decoding table: the position of a character in the alphabet, \<open>None\<close> where the
  table of the library holds 0xff.
\<close>

fun position :: "'a list \<Rightarrow> 'a \<Rightarrow> nat option" where
  "position [] c = None"
| "position (x # xs) c = (if x = c then Some 0 else map_option Suc (position xs c))"

definition decodeMap :: "char \<Rightarrow> nat option" where
  "decodeMap c = position encodeStd c"

definition isNewline :: "char \<Rightarrow> bool" where
  "isNewline c = (c = CHR 0x0A \<or> c = CHR 0x0D)"

text \<open>
  The bytes of one quantum: \<open>dbuf\<close> holds the two, three or four sextets read, and one
  byte fewer is written. The encoding is not strict: the unused low bits are dropped.
\<close>

definition quantumBytes :: "nat list \<Rightarrow> bytes" where
  "quantumBytes dbuf =
     (let d = dbuf @ replicate (4 - length dbuf) 0;
          val = d ! 0 * 262144 + d ! 1 * 4096 + d ! 2 * 64 + d ! 3
      in take (length dbuf - 1)
           [char_of (val div 65536), char_of (val div 256), char_of val])"

text \<open>
  \<open>Decode\<close> reads quantum after quantum (\<open>decodeQuantum\<close>); \<open>decodeFrom dbuf src\<close> is the
  rest of that loop when the current quantum has read the sextets \<open>dbuf\<close> and \<open>src\<close> is
  still to be read. It returns the bytes written and whether the input was corrupt.
  On corrupt input the bytes of the quanta decoded before it are returned all the
  same: \<open>DecodeString\<close> returns \<open>dbuf[:n]\<close> together with the error. Line feeds and
  carriage returns are skipped. The offset that \<open>CorruptInputError\<close> carries is left
  out: common.go never reads it.
\<close>

fun decodeFrom :: "nat list \<Rightarrow> string \<Rightarrow> bytes \<times> bool" where
  "decodeFrom dbuf [] = ([], dbuf \<noteq> [])"
| "decodeFrom dbuf (c # cs) =
     (case decodeMap c of
        Some out \<Rightarrow>
          if length dbuf = 3
          then (let (bs, e) = decodeFrom [] cs in (quantumBytes (dbuf @ [out]) @ bs, e))
          else decodeFrom (dbuf @ [out]) cs
      | None \<Rightarrow>
          if isNewline c then decodeFrom dbuf cs
          else if c \<noteq> CHR ''='' then ([], True)
          else if length dbuf < 2 then ([], True)
          else if length dbuf = 2 then
            (case dropWhile isNewline cs of
               [] \<Rightarrow> ([], True)
             | p # ps \<Rightarrow>
                 if p \<noteq> CHR ''='' then ([], True)
                 else (quantumBytes dbuf, dropWhile isNewline ps \<noteq> []))
          else (quantumBytes dbuf, dropWhile isNewline cs \<noteq> []))"

definition DecodeString :: "string \<Rightarrow> bytes \<times> error option" where
  "DecodeString s =
     (let (bs, e) = decodeFrom [] s in (bs, if e then Some CorruptInputError else None))"

section \<open>The random key\<close>

text \<open>
  \<open>rand.Int(rand.Reader, max)\<close> returns a number below \<open>max\<close> made from the entropy it
  reads, and panics when \<open>max\<close> is not positive. The reader is a tape of numbers, one
  for each draw; an exhausted tape is a failing reader: \<open>rand.Int\<close> then returns a nil
  number and an error, line 291 drops the error and line 292 dereferences the nil.
  \<open>None\<close> is the panic in both cases.
\<close>

fun randInt :: "nat \<Rightarrow> nat list \<Rightarrow> (nat \<times> nat list) option" where
  "randInt mx [] = None"
| "randInt mx (e # es) = (if mx = 0 then None else Some (e mod mx, es))"

text \<open>The loop of \<open>getRandomString\<close> (lines 290-293), \<open>sb\<close> the string builder.\<close>

fun getRandomString_loop ::
  "string \<Rightarrow> nat \<Rightarrow> string \<Rightarrow> nat list \<Rightarrow> (string \<times> nat list) option" where
  "getRandomString_loop allchar 0 sb es = Some (sb, es)"
| "getRandomString_loop allchar (Suc n) sb es =
     (case randInt (length allchar) es of
        None \<Rightarrow> None
      | Some (num, es') \<Rightarrow> getRandomString_loop allchar n (sb @ [allchar ! num]) es')"

text \<open>
  \<open>getRandomString\<close> (lines 288-295). \<open>ALLCHAR\<close> is a constant of the package that is
  declared outside common.go: it is the first argument. A negative length runs the
  loop zero times.
\<close>

definition getRandomString :: "string \<Rightarrow> int \<Rightarrow> nat list \<Rightarrow> (string \<times> nat list) option" where
  "getRandomString allchar len es = getRandomString_loop allchar (nat len) [] es"

section \<open>Collaborators and effects\<close>

text \<open>What the transport hands to \<open>client.Do\<close> and what it gets back.\<close>

record os_file =
  FileName :: string               \<comment> \<open>\<open>file.Name()\<close>\<close>
  FileContents :: "error + bytes"  \<comment> \<open>what reading the handle to its end gives\<close>

datatype http_body =
    JSONBody bytes
  | MultipartForm string bytes "string \<rightharpoonup> string"
      \<comment> \<open>the name and the bytes of the \<open>file\<close> part, and the other form fields\<close>

record http_request =
  ReqMethod :: string
  ReqURL :: string
  ContentType :: string
  ReqBody :: http_body

record http_response =
  StatusCode :: int
  RespBody :: "error + bytes"      \<comment> \<open>what \<open>io.ReadAll(resp.Body)\<close> gives\<close>

text \<open>
  Everything common.go uses and does not define: the package-level \<open>Verbose\<close>,
  \<open>successCode\<close> and \<open>ALLCHAR\<close>, declared in another file of the package; the clock
  readings of package utils; the crypto library; JSON; the HTTP client and server; the
  file system. A Go function that returns \<open>(value, error)\<close> is a sum where the caller
  drops the value on an error, and a pair where the caller stores the value whatever
  the error is (lines 58, 84 and 148 or 225).
\<close>

record world =
  Verbose :: bool
  successCode :: string
  ALLCHAR :: string
  CurrentYYMMDDHHMMSSS :: string
  GetCurrentTimeStamp :: string
  urlEncode :: "string \<Rightarrow> string"
  RSAEncrypt :: "bytes \<Rightarrow> bytes \<Rightarrow> error + bytes"
  AESEncryptECB :: "string \<Rightarrow> bytes \<Rightarrow> string \<times> error option"
  RSASign :: "bytes \<Rightarrow> bytes \<Rightarrow> string \<times> error option"
  AESDecryptECB :: "string \<Rightarrow> bytes \<Rightarrow> error + bytes"
  UnmarshalJSON :: "bytes \<Rightarrow> xmapM option \<times> error option"
  jsonMarshal :: "RequestPayload \<Rightarrow> error + bytes"
  jsonUnmarshal :: "bytes \<Rightarrow> error + ResponsePayload"
  NewRequest :: "string \<Rightarrow> error option"
  Do :: "http_request \<Rightarrow> error + http_response"
  osOpen :: "string \<Rightarrow> error + os_file"

datatype log_entry =
    LogBizContent string           \<comment> \<open>lines 155 and 190\<close>
  | LogSignBefore string           \<comment> \<open>line 81\<close>
  | LogSignFailed error            \<comment> \<open>lines 168 and 209\<close>
  | LogOpenFailed error            \<comment> \<open>line 194\<close>
  | LogUrl string                  \<comment> \<open>line 239\<close>
  | LogPayload string              \<comment> \<open>line 240\<close>
  | LogBody string                 \<comment> \<open>lines 268, 276 and 371\<close>
  | LogResponse ResponsePayload    \<comment> \<open>lines 177 and 218\<close>

text \<open>
  The state a call changes: the entropy left in the random reader, the lines written
  to the log, and the requests handed to the HTTP client.
\<close>

record state =
  entropy :: "nat list"
  logged :: "log_entry list"
  sent :: "http_request list"

definition logf :: "log_entry \<Rightarrow> state \<Rightarrow> state" where
  "logf e st = st\<lparr>logged := logged st @ [e]\<rparr>"

text \<open>\<open>if Verbose { log.Printf(...) }\<close>\<close>

definition vlog :: "world \<Rightarrow> log_entry \<Rightarrow> state \<Rightarrow> state" where
  "vlog w e st = (if Verbose w then logf e st else st)"

text \<open>A call either panics or returns the values of its results.\<close>

datatype 'a outcome = Panic | Return 'a

section \<open>Building the envelope\<close>

text \<open>\<open>NewRequestPayload\<close> (lines 38-46); the fields it does not name are empty.\<close>

definition NewRequestPayload :: "world \<Rightarrow> string \<Rightarrow> string \<Rightarrow> RequestPayload" where
  "NewRequestPayload w method version =
     \<lparr>TimeStamp = GetCurrentTimeStamp w, Method = method, Charset = ''utf-8'',
      Sign = [], Check = [], BizContent = [],
      ReqID = CurrentYYMMDDHHMMSSS w, CertID = [], Version = version\<rparr>"

text \<open>\<open>EncryptCheck\<close> (lines 48-55): on an error the envelope is left as it was.\<close>

definition EncryptCheck ::
  "world \<Rightarrow> bytes \<Rightarrow> bytes \<Rightarrow> RequestPayload \<Rightarrow> RequestPayload \<times> error option" where
  "EncryptCheck w pubKey aesKey r =
     (case RSAEncrypt w pubKey aesKey of
        Inl e \<Rightarrow> (r, Some e)
      | Inr check \<Rightarrow> (r\<lparr>Check := EncodeToString check\<rparr>, None))"

text \<open>\<open>EncryptBizContent\<close> (lines 57-60): the field is assigned whatever the error is.\<close>

definition EncryptBizContent ::
  "world \<Rightarrow> bytes \<Rightarrow> RequestPayload \<Rightarrow> RequestPayload \<times> error option" where
  "EncryptBizContent w keyByte r =
     (let (c, err) = AESEncryptECB w (BizContent r) keyByte
      in (r\<lparr>BizContent := c\<rparr>, err))"

fun joinWith :: "string \<Rightarrow> string list \<Rightarrow> string" where
  "joinWith sep [] = []"
| "joinWith sep [x] = x"
| "joinWith sep (x # y # ys) = x @ sep @ joinWith sep (y # ys)"

text \<open>
  Modelled from the spec: \<open>utils.MapToUrlValues\<close>, of the package ys_sdk/utils of this
  repository, which is not under src/. The spec (4.1, step 5) has the sign-string
  made of the fields \<open>timeStamp\<close>, \<open>method\<close>, \<open>charset\<close>, \<open>reqId\<close>, \<open>certId\<close>, \<open>version\<close>,
  \<open>check\<close>, \<open>bizContent\<close> in this fixed order, as \<open>key=value\<close> pairs joined by \<open>&\<close>, the
  values URL-encoded. The argument is a Go map, which has no order of its own; a key
  that the map does not hold gives no pair. Which URL encoding is meant the spec does
  not say: it is \<open>urlEncode\<close> of the collaborators.
\<close>

definition signFieldOrder :: "string list" where
  "signFieldOrder =
     [''timeStamp'', ''method'', ''charset'', ''reqId'', ''certId'', ''version'',
      ''check'', ''bizContent'']"

definition MapToUrlValues :: "world \<Rightarrow> (string \<rightharpoonup> string) \<Rightarrow> string" where
  "MapToUrlValues w m =
     joinWith ''&''
       (List.map_filter
          (\<lambda>k. case m k of None \<Rightarrow> None | Some v \<Rightarrow> Some (k @ ''='' @ urlEncode w v))
          signFieldOrder)"

text \<open>\<open>makeSignBefore\<close> (lines 62-74).\<close>

definition makeSignBefore :: "world \<Rightarrow> RequestPayload \<Rightarrow> string" where
  "makeSignBefore w r =
     MapToUrlValues w
       [''timeStamp'' \<mapsto> TimeStamp r,
        ''method'' \<mapsto> Method r,
        ''charset'' \<mapsto> Charset r,
        ''reqId'' \<mapsto> ReqID r,
        ''certId'' \<mapsto> CertID r,
        ''version'' \<mapsto> Version r,
        ''check'' \<mapsto> Check r,
        ''bizContent'' \<mapsto> BizContent r]"

text \<open>\<open>CalcSign\<close> (lines 76-89): the signature is assigned whatever the error is.\<close>

definition CalcSign ::
  "world \<Rightarrow> bytes \<Rightarrow> RequestPayload \<Rightarrow> state \<Rightarrow> RequestPayload \<times> error option \<times> state" where
  "CalcSign w key r st =
     (let content = makeSignBefore w r;
          st1 = vlog w (LogSignBefore content) st;
          (s, err) = RSASign w key content
      in (r\<lparr>Sign := s\<rparr>, err, st1))"

text \<open>\<open>EncodeMap\<close> (lines 91-103).\<close>

definition EncodeMap :: "RequestPayload \<Rightarrow> (string \<rightharpoonup> string)" where
  "EncodeMap r =
     [''timeStamp'' \<mapsto> TimeStamp r,
      ''method'' \<mapsto> Method r,
      ''charset'' \<mapsto> Charset r,
      ''sign'' \<mapsto> Sign r,
      ''check'' \<mapsto> Check r,
      ''bizContent'' \<mapsto> BizContent r,
      ''reqId'' \<mapsto> ReqID r,
      ''certId'' \<mapsto> CertID r,
      ''version'' \<mapsto> Version r]"

text \<open>\<open>Config.Decode\<close> (lines 143-150).\<close>

definition Decode :: "world \<Rightarrow> bytes \<Rightarrow> string \<Rightarrow> xmapM option \<times> error option" where
  "Decode w aseKey businessData =
     (case AESDecryptECB w businessData aseKey of
        Inl e \<Rightarrow> (None, Some e)
      | Inr decryptedBizData \<Rightarrow> UnmarshalJSON w decryptedBizData)"

section \<open>Transport\<close>

text \<open>
  \<open>sendRequest\<close> (lines 231-286). A request counts as sent when it is handed to
  \<open>client.Do\<close>. The body is base64-decoded and the decoded bytes are taken only when
  the decoding has no error (lines 271-274).
\<close>

definition sendRequest ::
  "world \<Rightarrow> string \<Rightarrow> RequestPayload \<Rightarrow> state \<Rightarrow> (error + ResponsePayload) \<times> state" where
  "sendRequest w url payload st =
     (case jsonMarshal w payload of
        Inl e \<Rightarrow> (Inl (Failed MarshalStep e), st)
      | Inr jsonData \<Rightarrow>
          (let st1 = vlog w (LogPayload jsonData) (vlog w (LogUrl url) st)
           in case NewRequest w url of
                Some e \<Rightarrow> (Inl (Failed NewRequestStep e), st1)
              | None \<Rightarrow>
                  (let req = \<lparr>ReqMethod = ''POST'', ReqURL = url,
                              ContentType = ''application/json'',
                              ReqBody = JSONBody jsonData\<rparr>;
                       st2 = st1\<lparr>sent := sent st1 @ [req]\<rparr>
                   in case Do w req of
                        Inl e \<Rightarrow> (Inl (Failed DoStep e), st2)
                      | Inr resp \<Rightarrow>
                          if StatusCode resp \<noteq> 200
                          then (Inl (Non200 (StatusCode resp)), st2)
                          else
                            (case RespBody resp of
                               Inl e \<Rightarrow> (Inl (Failed ReadBodyStep e), st2)
                             | Inr body \<Rightarrow>
                                 (let st3 = vlog w (LogBody body) st2;
                                      (kbody, kerr) = DecodeString body;
                                      body1 = (if kerr = None then kbody else body);
                                      st4 = vlog w (LogBody body1) st3
                                  in case jsonUnmarshal w body1 of
                                       Inl e \<Rightarrow> (Inl (Failed UnmarshalStep e), st4)
                                     | Inr responsePayload \<Rightarrow>
                                         (Inr responsePayload, st4))))))"

text \<open>\<open>filepath.Base\<close> on a system whose separator is the slash.\<close>

definition Base :: "string \<Rightarrow> string" where
  "Base path =
     (if path = [] then ''.''
      else (let stripped = rev (dropWhile (\<lambda>c. c = CHR ''/'') (rev path));
                element = rev (takeWhile (\<lambda>c. c \<noteq> CHR ''/'') (rev stripped))
            in if element = [] then ''/'' else element))"

text \<open>
  \<open>multipart.NewWriter\<close> (line 316) gives the writer a random boundary: it reads 30
  bytes from \<open>rand.Reader\<close>, panics when the read fails, and takes their lower-case
  hexadecimal form. The 30 bytes are the next 30 numbers of the entropy tape, each
  reduced to a byte; a tape with fewer numbers left is the failing read.
\<close>

definition hexByte :: "nat \<Rightarrow> string" where
  "hexByte n =
     [''0123456789abcdef'' ! (n mod 256 div 16), ''0123456789abcdef'' ! (n mod 16)]"

definition randomBoundary :: "nat list \<Rightarrow> (string \<times> nat list) option" where
  "randomBoundary es =
     (if length es < 30 then None
      else Some (concat (map hexByte (take 30 es)), drop 30 es))"

text \<open>
  \<open>sendUploadRequest\<close> (lines 312-381). The multipart writer writes into a buffer in
  memory, so \<open>CreateFormFile\<close>, \<open>WriteField\<close> and \<open>Close\<close> do not fail; \<open>io.Copy\<close> fails
  when reading the file fails. The form is kept as its parts rather than as bytes;
  the boundary is in the content type (\<open>FormDataContentType\<close>: a boundary of
  hexadecimal digits is not quoted). Line 368 assigns to the body what
  \<open>DecodeString\<close> returns and drops its error.
\<close>

definition sendUploadRequest ::
  "world \<Rightarrow> string \<Rightarrow> RequestPayload \<Rightarrow> os_file \<Rightarrow> state
     \<Rightarrow> (error + ResponsePayload) outcome \<times> state" where
  "sendUploadRequest w url payload f st =
     (let params = EncodeMap payload
      in case randomBoundary (entropy st) of
           None \<Rightarrow> (Panic, st)
         | Some (boundary, es) \<Rightarrow>
      (let st1 = st\<lparr>entropy := es\<rparr>
       in case FileContents f of
           Inl e \<Rightarrow> (Return (Inl (Failed CopyFileStep e)), st1)
         | Inr contents \<Rightarrow>
             (case NewRequest w url of
                Some e \<Rightarrow> (Return (Inl (Failed NewRequestStep e)), st1)
              | None \<Rightarrow>
                  (let req = \<lparr>ReqMethod = ''POST'', ReqURL = url,
                              ContentType = ''multipart/form-data; boundary='' @ boundary,
                              ReqBody = MultipartForm (Base (FileName f)) contents params\<rparr>;
                       st2 = st1\<lparr>sent := sent st1 @ [req]\<rparr>
                   in case Do w req of
                        Inl e \<Rightarrow> (Return (Inl (Failed DoStep e)), st2)
                      | Inr resp \<Rightarrow>
                          if StatusCode resp \<noteq> 200
                          then (Return (Inl (Non200 (StatusCode resp))), st2)
                          else
                            (case RespBody resp of
                               Inl e \<Rightarrow> (Return (Inl (Failed ReadBodyStep e)), st2)
                             | Inr body \<Rightarrow>
                                 (let body1 = fst (DecodeString body);
                                      st3 = vlog w (LogBody body1) st2
                                  in case jsonUnmarshal w body1 of
                                       Inl e \<Rightarrow>
                                         (Return (Inl (Failed UnmarshalStep e)), st3)
                                     | Inr responsePayload \<Rightarrow>
                                         (Return (Inr responsePayload), st3)))))))"

section \<open>The two operations of the client\<close>

text \<open>
  The results of both operations are named \<open>resp\<close>, \<open>data\<close> and \<open>err\<close>, start as nil,
  and every \<open>return\<close> is a bare one: it returns what the three variables hold.
  Neither function assigns \<open>resp\<close>: the response of the transport is held by the local
  variable \<open>response\<close>.
\<close>

type_synonym results = "ResponsePayload option \<times> xmapM option \<times> error option"

text \<open>
  \<open>Config.Request\<close> (lines 153-185). Lines 161 and 164 call \<open>EncryptCheck\<close> and
  \<open>EncryptBizContent\<close> as statements: the errors they return are dropped.
\<close>

definition Request ::
  "world \<Rightarrow> Config \<Rightarrow> string \<Rightarrow> string \<Rightarrow> string \<Rightarrow> string \<Rightarrow> state
     \<Rightarrow> results outcome \<times> state" where
  "Request w c url method version bizContent st =
     (let st1 = vlog w (LogBizContent bizContent) st;
          payload = (NewRequestPayload w method version)\<lparr>CertID := ConfCertID c\<rparr>
      in case getRandomString (ALLCHAR w) 16 (entropy st1) of
           None \<Rightarrow> (Panic, st1)
         | Some (aesKey, es) \<Rightarrow>
             (let st2 = st1\<lparr>entropy := es\<rparr>;
                  payload1 = fst (EncryptCheck w (PublicKey c) aesKey payload);
                  payload2 = payload1\<lparr>BizContent := bizContent\<rparr>;
                  payload3 = fst (EncryptBizContent w aesKey payload2);
                  (payload4, err, st3) = CalcSign w (PrivateKey c) payload3 st2
              in case err of
                   Some e \<Rightarrow> (Return (None, None, Some e), logf (LogSignFailed e) st3)
                 | None \<Rightarrow>
                     (case sendRequest w url payload4 st3 of
                        (Inl e, st4) \<Rightarrow> (Return (None, None, Some e), st4)
                      | (Inr response, st4) \<Rightarrow>
                          (let st5 = vlog w (LogResponse response) st4
                           in if Code response \<noteq> successCode w
                              then (Return (None, None,
                                      Some (Errorf (''code:'' @ Code response
                                                    @ '' msg:'' @ Msg response))), st5)
                              else (let (data, err1) = Decode w aesKey (BusinessData response)
                                    in (Return (None, data, err1), st5))))))"

text \<open>
  \<open>Config.UploadRequest\<close> (lines 188-228). Line 225 parses the business data of the
  response as it is; \<open>Decode\<close> is not called. A panic of the transport is a panic of
  the call.
\<close>

definition UploadRequest ::
  "world \<Rightarrow> Config \<Rightarrow> string \<Rightarrow> string \<Rightarrow> string \<Rightarrow> string \<Rightarrow> string \<Rightarrow> state
     \<Rightarrow> results outcome \<times> state" where
  "UploadRequest w c url method version filePath bizContent st =
     (let st1 = vlog w (LogBizContent bizContent) st
      in case osOpen w filePath of
           Inl e \<Rightarrow> (Return (None, None, Some e), logf (LogOpenFailed e) st1)
         | Inr f \<Rightarrow>
        (let payload = (NewRequestPayload w method version)\<lparr>CertID := ConfCertID c\<rparr>
         in case getRandomString (ALLCHAR w) 16 (entropy st1) of
           None \<Rightarrow> (Panic, st1)
         | Some (aesKey, es) \<Rightarrow>
             (let st2 = st1\<lparr>entropy := es\<rparr>;
                  payload1 = fst (EncryptCheck w (PublicKey c) aesKey payload);
                  payload2 = payload1\<lparr>BizContent := bizContent\<rparr>;
                  payload3 = fst (EncryptBizContent w aesKey payload2);
                  (payload4, err, st3) = CalcSign w (PrivateKey c) payload3 st2
              in case err of
                   Some e \<Rightarrow> (Return (None, None, Some e), logf (LogSignFailed e) st3)
                 | None \<Rightarrow>
                     (case sendUploadRequest w url payload4 f st3 of
                        (Panic, st4) \<Rightarrow> (Panic, st4)
                      | (Return (Inl e), st4) \<Rightarrow> (Return (None, None, Some e), st4)
                      | (Return (Inr response), st4) \<Rightarrow>
                          (let st5 = vlog w (LogResponse response) st4
                           in if Code response \<noteq> successCode w
                              then (Return (None, None,
                                      Some (Errorf (''code:'' @ Code response
                                                    @ '' msg:'' @ Msg response))), st5)
                              else if SubCode response = successCode w
                              then (let (data, err1) = UnmarshalJSON w (BusinessData response)
                                    in (Return (None, data, err1), st5))
                              else (Return (None, None, None), st5))))))"

section \<open>Notions used in the statements\<close>

text \<open>
  The envelope after lines 157-164 (and 198-205, which are the same lines): created,
  given the certificate id, the check and the encrypted business content, not yet
  signed. \<open>aesKey\<close> is the key that line 159 has drawn.
\<close>

definition encrypted ::
  "world \<Rightarrow> Config \<Rightarrow> string \<Rightarrow> string \<Rightarrow> string \<Rightarrow> bytes \<Rightarrow> RequestPayload" where
  "encrypted w c method version bizContent aesKey =
     fst (EncryptBizContent w aesKey
            ((fst (EncryptCheck w (PublicKey c) aesKey
                     ((NewRequestPayload w method version)\<lparr>CertID := ConfCertID c\<rparr>)))
               \<lparr>BizContent := bizContent\<rparr>))"

text \<open>The envelope and the error that \<open>CalcSign\<close> leaves (line 166 and line 207).\<close>

definition envelope ::
  "world \<Rightarrow> Config \<Rightarrow> string \<Rightarrow> string \<Rightarrow> string \<Rightarrow> bytes \<Rightarrow> RequestPayload" where
  "envelope w c method version bizContent aesKey =
     (let r = encrypted w c method version bizContent aesKey
      in r\<lparr>Sign := fst (RSASign w (PrivateKey c) (makeSignBefore w r))\<rparr>)"

definition signError ::
  "world \<Rightarrow> Config \<Rightarrow> string \<Rightarrow> string \<Rightarrow> string \<Rightarrow> bytes \<Rightarrow> error option" where
  "signError w c method version bizContent aesKey =
     snd (RSASign w (PrivateKey c)
            (makeSignBefore w (encrypted w c method version bizContent aesKey)))"

text \<open>
  The key that line 159 (line 200) makes from the entropy of the state: the
  characters of \<open>ALLCHAR\<close> at the indices that the first 16 numbers of the tape give.
\<close>

definition drawnKey :: "world \<Rightarrow> state \<Rightarrow> bytes" where
  "drawnKey w st =
     map (\<lambda>e. ALLCHAR w ! (e mod length (ALLCHAR w))) (take 16 (entropy st))"

text \<open>The state before a call has written or sent anything.\<close>

definition idle :: "nat list \<Rightarrow> state" where
  "idle es = \<lparr>entropy = es, logged = [], sent = []\<rparr>"

text \<open>
  What the transports do when nothing has been logged or sent before: the reply, and
  in the state the log lines written and the requests handed to the HTTP client. The
  upload transport reads the entropy \<open>es\<close> and leaves what it has not read.
\<close>

definition exchange :: "world \<Rightarrow> string \<Rightarrow> RequestPayload \<Rightarrow> (error + ResponsePayload) \<times> state" where
  "exchange w url payload = sendRequest w url payload (idle [])"

definition uploadExchange ::
  "world \<Rightarrow> string \<Rightarrow> RequestPayload \<Rightarrow> os_file \<Rightarrow> nat list
     \<Rightarrow> (error + ResponsePayload) outcome \<times> state" where
  "uploadExchange w url payload f es = sendUploadRequest w url payload f (idle es)"

text \<open>
  The same world with other encryption functions in the place of \<open>RSAEncrypt\<close> and
  \<open>AESEncryptECB\<close>.
\<close>

definition recrypted ::
  "world \<Rightarrow> (bytes \<Rightarrow> bytes \<Rightarrow> error + bytes) \<Rightarrow> (string \<Rightarrow> bytes \<Rightarrow> string \<times> error option)
     \<Rightarrow> world" where
  "recrypted w rsa aes = w\<lparr>RSAEncrypt := rsa, AESEncryptECB := aes\<rparr>"

text \<open>
  The two encryptions of lines 161 and 164 give in the world \<open>w'\<close> under the key \<open>k'\<close> what
  they give in the world \<open>w\<close> under the key \<open>k\<close>.
\<close>

definition sameCiphertexts ::
  "world \<Rightarrow> world \<Rightarrow> Config \<Rightarrow> string \<Rightarrow> bytes \<Rightarrow> bytes \<Rightarrow> bool" where
  "sameCiphertexts w w' c bizContent k k' =
     (RSAEncrypt w' (PublicKey c) k' = RSAEncrypt w (PublicKey c) k
      \<and> fst (AESEncryptECB w' bizContent k') = fst (AESEncryptECB w bizContent k))"

section \<open>A test double of the collaborators\<close>

text \<open>
  To run the operations on concrete inputs the collaborators need concrete values.
  The double below is a canned server and toy primitives: the cipher is base64 under
  a key of 16 bytes, the public-key encryption reverses its input, and the JSON
  functions know the few texts the server answers with.
\<close>

definition okJSON :: string where
  "okJSON = ''{\"code\":\"SUCCESS\",\"subCode\":\"SUCCESS\",\"businessData\":\"eyJvayI6dHJ1ZX0=\"}''"

definition okJSON64 :: string where
  "okJSON64 = ''eyJjb2RlIjoiU1VDQ0VTUyIsInN1YkNvZGUiOiJTVUNDRVNTIiwiYnVzaW5lc3NEYXRhIjoiZXlKdmF5STZkSEoxWlgwPSJ9''"

definition refusedJSON :: string where
  "refusedJSON = ''{\"code\":\"E001\",\"msg\":\"denied\",\"businessData\":\"eyJvayI6dHJ1ZX0=\"}''"

definition partialJSON :: string where
  "partialJSON = ''{\"code\":\"SUCCESS\",\"subCode\":\"E100\",\"subMsg\":\"rejected\"}''"

definition partialJSON64 :: string where
  "partialJSON64 = ''eyJjb2RlIjoiU1VDQ0VTUyIsInN1YkNvZGUiOiJFMTAwIiwic3ViTXNnIjoicmVqZWN0ZWQifQ==''"

definition okResponse :: ResponsePayload where
  "okResponse =
     \<lparr>Code = ''SUCCESS'', Msg = [], SubCode = ''SUCCESS'', SubMsg = [],
      RespTimeStamp = [], Norce = [], RespSign = [], BusinessData = ''eyJvayI6dHJ1ZX0=''\<rparr>"

definition refusedResponse :: ResponsePayload where
  "refusedResponse =
     \<lparr>Code = ''E001'', Msg = ''denied'', SubCode = [], SubMsg = [],
      RespTimeStamp = [], Norce = [], RespSign = [], BusinessData = ''eyJvayI6dHJ1ZX0=''\<rparr>"

definition partialResponse :: ResponsePayload where
  "partialResponse =
     \<lparr>Code = ''SUCCESS'', Msg = [], SubCode = ''E100'', SubMsg = ''rejected'',
      RespTimeStamp = [], Norce = [], RespSign = [], BusinessData = []\<rparr>"

definition testUnmarshal :: "bytes \<Rightarrow> error + ResponsePayload" where
  "testUnmarshal body =
     (if body = [] then Inl (LibError ''unexpected end of JSON input'')
      else if body = okJSON then Inr okResponse
      else if body = refusedJSON then Inr refusedResponse
      else if body = partialJSON then Inr partialResponse
      else Inl (LibError ''invalid character''))"

definition testUnmarshalJSON :: "bytes \<Rightarrow> xmapM option \<times> error option" where
  "testUnmarshalJSON text =
     (if text = ''{\"ok\":true}'' then (Some [(''ok'', JBool True)], None)
      else if text = ''null'' then (None, None)
      else (None, Some (LibError ''invalid JSON'')))"

definition testMarshal :: "RequestPayload \<Rightarrow> error + bytes" where
  "testMarshal r =
     Inr (''{\"timeStamp\":\"'' @ TimeStamp r @ ''\",\"method\":\"'' @ Method r
          @ ''\",\"charset\":\"'' @ Charset r @ ''\",\"sign\":\"'' @ Sign r
          @ ''\",\"check\":\"'' @ Check r @ ''\",\"bizContent\":\"'' @ BizContent r
          @ ''\",\"reqId\":\"'' @ ReqID r @ ''\",\"certId\":\"'' @ CertID r
          @ ''\",\"version\":\"'' @ Version r @ ''\"}'')"

definition testDo :: "http_request \<Rightarrow> error + http_response" where
  "testDo req =
     (if ReqURL req = ''https://api.test/pay''
        then Inr \<lparr>StatusCode = 200, RespBody = Inr okJSON\<rparr>
      else if ReqURL req = ''https://api.test/pay64''
        then Inr \<lparr>StatusCode = 200, RespBody = Inr okJSON64\<rparr>
      else if ReqURL req = ''https://api.test/refuse''
        then Inr \<lparr>StatusCode = 200, RespBody = Inr refusedJSON\<rparr>
      else if ReqURL req = ''https://api.test/partial64''
        then Inr \<lparr>StatusCode = 200, RespBody = Inr partialJSON64\<rparr>
      else Inl (LibError ''connection refused''))"

definition testUrlEncode :: "string \<Rightarrow> string" where
  "testUrlEncode s =
     concat (map (\<lambda>c. if c = CHR ''='' then ''%3D''
                      else if c = CHR ''&'' then ''%26''
                      else if c = CHR ''+'' then ''%2B''
                      else if c = CHR ''/'' then ''%2F''
                      else if c = CHR '' '' then ''%20''
                      else [c]) s)"

definition testWorld :: world where
  "testWorld =
     \<lparr>Verbose = False,
      successCode = ''SUCCESS'',
      ALLCHAR = ''0123456789abcdefghijklmnopqrstuvwxyzABCDEFGHIJKLMNOPQRSTUVWXYZ'',
      CurrentYYMMDDHHMMSSS = ''20261030205600123'',
      GetCurrentTimeStamp = ''2026-10-30 20:56:00'',
      urlEncode = testUrlEncode,
      RSAEncrypt = (\<lambda>pubKey d. if pubKey = [] then Inl (LibError ''invalid public key'')
                               else Inr (rev d)),
      AESEncryptECB = (\<lambda>plain k. if length k = 16 then (EncodeToString plain, None)
                                  else ([], Some (LibError ''invalid key size''))),
      RSASign = (\<lambda>k content. if k = [] then ([], Some (LibError ''invalid private key''))
                              else (''sig-'' @ take 9 content, None)),
      AESDecryptECB = (\<lambda>cipher k. if length k = 16
                                   then (case DecodeString cipher of
                                           (b, None) \<Rightarrow> Inr b
                                         | (b, Some e) \<Rightarrow> Inl e)
                                   else Inl (LibError ''invalid key size'')),
      UnmarshalJSON = testUnmarshalJSON,
      jsonMarshal = testMarshal,
      jsonUnmarshal = testUnmarshal,
      NewRequest = (\<lambda>url. None),
      Do = testDo,
      osOpen = (\<lambda>path. if path = ''/tmp/receipt.pdf''
                        then Inr \<lparr>FileName = path, FileContents = Inr ''%PDF-1.4''\<rparr>
                        else Inl (LibError ''no such file or directory''))\<rparr>"

text \<open>
  A second cipher pair for the test world: it reverses the key before it does what
  the first pair does, so the reversed key under it gives the ciphertexts of the key
  under the first.
\<close>

definition testWorld2 :: world where
  "testWorld2 =
     recrypted testWorld
       (\<lambda>pubKey d. RSAEncrypt testWorld pubKey (rev d))
       (\<lambda>plain k. AESEncryptECB testWorld plain (rev k))"

definition testConfig :: Config where
  "testConfig = \<lparr>ConfCertID = ''cert-1'', PrivateKey = ''PRIVATE'', PublicKey = ''PUBLIC''\<rparr>"

definition testTape :: "nat list" where
  "testTape = [7, 64, 129, 3, 40, 61, 62, 15, 22, 9, 77, 31, 50, 5, 18, 44]"

definition boundaryTape :: "nat list" where
  "boundaryTape =
     [171, 18, 205, 7, 99, 240, 33, 64, 5, 250, 128, 77, 16, 201, 58, 9, 144, 36, 222, 111,
      2, 83, 190, 47, 60, 255, 0, 129, 14, 73]"

definition testFile :: os_file where
  "testFile = \<lparr>FileName = ''/tmp/receipt.pdf'', FileContents = Inr ''%PDF-1.4''\<rparr>"

section \<open>The random key: proofs\<close>

lemma getRandomString_loop_draws:
  "allchar \<noteq> [] \<Longrightarrow> n \<le> length es \<Longrightarrow>
   getRandomString_loop allchar n sb es =
     Some (sb @ map (\<lambda>e. allchar ! (e mod length allchar)) (take n es), drop n es)"
proof (induction n arbitrary: sb es)
  case 0
  then show ?case by simp
next
  case (Suc n)
  then obtain e rest where es: "es = e # rest"
    by (cases es) auto
  with Suc.prems have "n \<le> length rest"
    by simp
  with Suc.IH [OF Suc.prems(1)] es Suc.prems(1) show ?case
    by simp
qed

lemma getRandomString_draws:
  assumes "allchar \<noteq> []" and "nat len \<le> length es"
  shows "getRandomString allchar len es =
           Some (map (\<lambda>e. allchar ! (e mod length allchar)) (take (nat len) es),
                 drop (nat len) es)"
  using getRandomString_loop_draws [OF assms, of "[]"]
  by (simp add: getRandomString_def)

text \<open>
  C9. When the alphabet is not empty and the random reader delivers the 16 draws,
  \<open>getRandomString(16)\<close> returns a string of exactly 16 characters, each of which is a
  character of \<open>ALLCHAR\<close>: the one at the index drawn for it, a number below the length
  of \<open>ALLCHAR\<close>. The call uses up exactly 16 draws.
\<close>

theorem getRandomString_16:
  assumes "ALLCHAR w \<noteq> []" and "16 \<le> length es"
  shows "\<exists>s. getRandomString (ALLCHAR w) 16 es = Some (s, drop 16 es)
            \<and> length s = 16
            \<and> set s \<subseteq> set (ALLCHAR w)
            \<and> (\<forall>i<16. s ! i = ALLCHAR w ! (es ! i mod length (ALLCHAR w))
                      \<and> es ! i mod length (ALLCHAR w) < length (ALLCHAR w))"
proof -
  let ?A = "ALLCHAR w"
  let ?s = "map (\<lambda>e. ?A ! (e mod length ?A)) (take 16 es)"
  have run: "getRandomString ?A 16 es = Some (?s, drop 16 es)"
    using getRandomString_draws [of ?A 16 es] assms by simp
  have len: "length ?s = 16"
    using assms(2) by simp
  have below: "e mod length ?A < length ?A" for e
    using assms(1) by simp
  have sub: "set ?s \<subseteq> set ?A"
    using below by auto
  have idx: "\<forall>i<16. ?s ! i = ?A ! (es ! i mod length ?A)
                   \<and> es ! i mod length ?A < length ?A"
    using assms(2) below by simp
  from run len sub idx show ?thesis
    by blast
qed

theorem getRandomString_16_witness:
  "ALLCHAR testWorld \<noteq> [] \<and> 16 \<le> length testTape
   \<and> (\<exists>s. getRandomString (ALLCHAR testWorld) 16 testTape = Some (s, drop 16 testTape)
            \<and> length s = 16
            \<and> set s \<subseteq> set (ALLCHAR testWorld)
            \<and> (\<forall>i<16. s ! i
                        = ALLCHAR testWorld ! (testTape ! i mod length (ALLCHAR testWorld))
                      \<and> testTape ! i mod length (ALLCHAR testWorld)
                        < length (ALLCHAR testWorld)))"
proof -
  have a: "ALLCHAR testWorld \<noteq> []"
    by (simp add: testWorld_def)
  have b: "16 \<le> length testTape"
    by (simp add: testTape_def)
  from getRandomString_16 [OF a b] a b show ?thesis
    by blast
qed

section \<open>How the operations run\<close>

lemma entropy_vlog [simp]: "entropy (vlog w e st) = entropy st"
  by (simp add: vlog_def logf_def)

lemma sent_vlog [simp]: "sent (vlog w e st) = sent st"
  by (simp add: vlog_def logf_def)

lemma logged_vlog [simp]:
  "logged (vlog w e st) = logged st @ (if Verbose w then [e] else [])"
  by (simp add: vlog_def logf_def)

lemma sent_logf [simp]: "sent (logf e st) = sent st"
  by (simp add: logf_def)

lemma entropy_logf [simp]: "entropy (logf e st) = entropy st"
  by (simp add: logf_def)

lemma logged_logf [simp]: "logged (logf e st) = logged st @ [e]"
  by (simp add: logf_def)

lemma CalcSign_eq:
  "CalcSign w key r st =
     (r\<lparr>Sign := fst (RSASign w key (makeSignBefore w r))\<rparr>,
      snd (RSASign w key (makeSignBefore w r)),
      vlog w (LogSignBefore (makeSignBefore w r)) st)"
  by (simp add: CalcSign_def Let_def split_beta)

text \<open>
  Both transports add to the log and to the requests sent, and what they add and
  reply does not depend on the state they start in.
\<close>

lemma sendRequest_exchange:
  "sendRequest w url p st =
     (fst (exchange w url p),
      st\<lparr>logged := logged st @ logged (snd (exchange w url p)),
         sent := sent st @ sent (snd (exchange w url p))\<rparr>)"
  by (simp add: sendRequest_def exchange_def idle_def vlog_def logf_def Let_def
        split: sum.split option.split prod.split)

lemma sendUploadRequest_exchange:
  "sendUploadRequest w url p f st =
     (fst (uploadExchange w url p f (entropy st)),
      st\<lparr>entropy := entropy (snd (uploadExchange w url p f (entropy st))),
         logged := logged st @ logged (snd (uploadExchange w url p f (entropy st))),
         sent := sent st @ sent (snd (uploadExchange w url p f (entropy st)))\<rparr>)"
  by (simp add: sendUploadRequest_def uploadExchange_def idle_def vlog_def logf_def Let_def
        split: sum.split option.split prod.split)

text \<open>The operations, with the steps before the transport folded into the envelope.\<close>

lemma Request_run:
  "Request w c url method version bizContent st =
     (case getRandomString (ALLCHAR w) 16 (entropy st) of
        None \<Rightarrow> (Panic, vlog w (LogBizContent bizContent) st)
      | Some (aesKey, es) \<Rightarrow>
          (let r = encrypted w c method version bizContent aesKey;
               st3 = vlog w (LogSignBefore (makeSignBefore w r))
                       ((vlog w (LogBizContent bizContent) st)\<lparr>entropy := es\<rparr>)
           in case signError w c method version bizContent aesKey of
                Some e \<Rightarrow> (Return (None, None, Some e), logf (LogSignFailed e) st3)
              | None \<Rightarrow>
                  (let x = exchange w url (envelope w c method version bizContent aesKey);
                       st4 = st3\<lparr>logged := logged st3 @ logged (snd x),
                                 sent := sent st3 @ sent (snd x)\<rparr>
                   in case fst x of
                        Inl e \<Rightarrow> (Return (None, None, Some e), st4)
                      | Inr response \<Rightarrow>
                          (if Code response \<noteq> successCode w
                           then Return (None, None,
                                  Some (Errorf (''code:'' @ Code response
                                                @ '' msg:'' @ Msg response)))
                           else Return (None, Decode w aesKey (BusinessData response)),
                           vlog w (LogResponse response) st4))))"
proof (cases "getRandomString (ALLCHAR w) 16 (entropy st)")
  case None
  then show ?thesis
    by (simp add: Request_def Let_def)
next
  case (Some ke)
  then obtain aesKey es where
    key: "getRandomString (ALLCHAR w) 16 (entropy st) = Some (aesKey, es)"
    by (cases ke) auto
  show ?thesis
    by (simp add: Request_def key CalcSign_eq sendRequest_exchange envelope_def
          encrypted_def signError_def Let_def
          split: option.split sum.split prod.split)
qed

lemma UploadRequest_run:
  "UploadRequest w c url method version filePath bizContent st =
     (case osOpen w filePath of
        Inl e \<Rightarrow> (Return (None, None, Some e),
                  logf (LogOpenFailed e) (vlog w (LogBizContent bizContent) st))
      | Inr f \<Rightarrow>
     (case getRandomString (ALLCHAR w) 16 (entropy st) of
        None \<Rightarrow> (Panic, vlog w (LogBizContent bizContent) st)
      | Some (aesKey, es) \<Rightarrow>
          (let r = encrypted w c method version bizContent aesKey;
               st3 = vlog w (LogSignBefore (makeSignBefore w r))
                       ((vlog w (LogBizContent bizContent) st)\<lparr>entropy := es\<rparr>)
           in case signError w c method version bizContent aesKey of
                Some e \<Rightarrow> (Return (None, None, Some e), logf (LogSignFailed e) st3)
              | None \<Rightarrow>
                  (let x = uploadExchange w url
                             (envelope w c method version bizContent aesKey) f es;
                       st4 = st3\<lparr>entropy := entropy (snd x),
                                 logged := logged st3 @ logged (snd x),
                                 sent := sent st3 @ sent (snd x)\<rparr>
                   in case fst x of
                        Panic \<Rightarrow> (Panic, st4)
                      | Return (Inl e) \<Rightarrow> (Return (None, None, Some e), st4)
                      | Return (Inr response) \<Rightarrow>
                          (if Code response \<noteq> successCode w
                           then Return (None, None,
                                  Some (Errorf (''code:'' @ Code response
                                                @ '' msg:'' @ Msg response)))
                           else if SubCode response = successCode w
                           then Return (None, UnmarshalJSON w (BusinessData response))
                           else Return (None, None, None),
                           vlog w (LogResponse response) st4)))))"
proof (cases "osOpen w filePath")
  case (Inl e)
  then show ?thesis
    by (simp add: UploadRequest_def Let_def)
next
  case opened: (Inr f)
  show ?thesis
  proof (cases "getRandomString (ALLCHAR w) 16 (entropy st)")
    case None
    then show ?thesis
      by (simp add: UploadRequest_def opened Let_def)
  next
    case (Some ke)
    then obtain aesKey es where
      key: "getRandomString (ALLCHAR w) 16 (entropy st) = Some (aesKey, es)"
      by (cases ke) auto
    show ?thesis
      by (simp add: UploadRequest_def opened key CalcSign_eq sendUploadRequest_exchange
            envelope_def encrypted_def signError_def Let_def
            split: option.split sum.split prod.split outcome.split)
  qed
qed

lemma makeSignBefore_eq:
  "makeSignBefore w r =
     ''timeStamp='' @ urlEncode w (TimeStamp r)
     @ ''&method='' @ urlEncode w (Method r)
     @ ''&charset='' @ urlEncode w (Charset r)
     @ ''&reqId='' @ urlEncode w (ReqID r)
     @ ''&certId='' @ urlEncode w (CertID r)
     @ ''&version='' @ urlEncode w (Version r)
     @ ''&check='' @ urlEncode w (Check r)
     @ ''&bizContent='' @ urlEncode w (BizContent r)"
  by (simp add: makeSignBefore_def MapToUrlValues_def signFieldOrder_def List.map_filter_simps)

lemma makeSignBefore_Sign [simp]:
  "makeSignBefore w (r\<lparr>Sign := s\<rparr>) = makeSignBefore w r"
  by (simp add: makeSignBefore_def)

section \<open>What a call returns, sends and draws\<close>

lemma Request_fst:
  "fst (Request w c url method version bizContent st) =
     (case getRandomString (ALLCHAR w) 16 (entropy st) of
        None \<Rightarrow> Panic
      | Some (aesKey, es) \<Rightarrow>
          (case signError w c method version bizContent aesKey of
             Some e \<Rightarrow> Return (None, None, Some e)
           | None \<Rightarrow>
               (case fst (exchange w url (envelope w c method version bizContent aesKey)) of
                  Inl e \<Rightarrow> Return (None, None, Some e)
                | Inr response \<Rightarrow>
                    if Code response \<noteq> successCode w
                    then Return (None, None,
                           Some (Errorf (''code:'' @ Code response
                                         @ '' msg:'' @ Msg response)))
                    else Return (None, Decode w aesKey (BusinessData response)))))"
  by (simp add: Request_run Let_def split: option.split sum.split prod.split)

lemma Request_sent:
  "sent (snd (Request w c url method version bizContent st)) =
     sent st @
     (case getRandomString (ALLCHAR w) 16 (entropy st) of
        None \<Rightarrow> []
      | Some (aesKey, es) \<Rightarrow>
          (case signError w c method version bizContent aesKey of
             Some e \<Rightarrow> []
           | None \<Rightarrow>
               sent (snd (exchange w url (envelope w c method version bizContent aesKey)))))"
  by (simp add: Request_run Let_def split: option.split sum.split prod.split)

lemma Request_entropy:
  "entropy (snd (Request w c url method version bizContent st)) =
     (case getRandomString (ALLCHAR w) 16 (entropy st) of
        None \<Rightarrow> entropy st
      | Some (aesKey, es) \<Rightarrow> es)"
  by (simp add: Request_run Let_def split: option.split sum.split prod.split)

lemma Request_logged:
  "logged (snd (Request w c url method version bizContent st)) =
     logged st @ (if Verbose w then [LogBizContent bizContent] else []) @
     (case getRandomString (ALLCHAR w) 16 (entropy st) of
        None \<Rightarrow> []
      | Some (aesKey, es) \<Rightarrow>
          (if Verbose w
           then [LogSignBefore
                   (makeSignBefore w (encrypted w c method version bizContent aesKey))]
           else []) @
          (case signError w c method version bizContent aesKey of
             Some e \<Rightarrow> [LogSignFailed e]
           | None \<Rightarrow>
               logged (snd (exchange w url (envelope w c method version bizContent aesKey))) @
               (case fst (exchange w url (envelope w c method version bizContent aesKey)) of
                  Inl e \<Rightarrow> []
                | Inr response \<Rightarrow> if Verbose w then [LogResponse response] else [])))"
  by (simp add: Request_run Let_def split: option.split sum.split prod.split)

lemma UploadRequest_fst:
  "fst (UploadRequest w c url method version filePath bizContent st) =
     (case osOpen w filePath of
        Inl e \<Rightarrow> Return (None, None, Some e)
      | Inr f \<Rightarrow>
     (case getRandomString (ALLCHAR w) 16 (entropy st) of
        None \<Rightarrow> Panic
      | Some (aesKey, es) \<Rightarrow>
          (case signError w c method version bizContent aesKey of
             Some e \<Rightarrow> Return (None, None, Some e)
           | None \<Rightarrow>
               (case fst (uploadExchange w url
                            (envelope w c method version bizContent aesKey) f es) of
                  Panic \<Rightarrow> Panic
                | Return (Inl e) \<Rightarrow> Return (None, None, Some e)
                | Return (Inr response) \<Rightarrow>
                    if Code response \<noteq> successCode w
                    then Return (None, None,
                           Some (Errorf (''code:'' @ Code response
                                         @ '' msg:'' @ Msg response)))
                    else if SubCode response = successCode w
                    then Return (None, UnmarshalJSON w (BusinessData response))
                    else Return (None, None, None)))))"
  by (simp add: UploadRequest_run Let_def
        split: option.split sum.split prod.split outcome.split)

lemma UploadRequest_sent:
  "sent (snd (UploadRequest w c url method version filePath bizContent st)) =
     sent st @
     (case osOpen w filePath of
        Inl e \<Rightarrow> []
      | Inr f \<Rightarrow>
     (case getRandomString (ALLCHAR w) 16 (entropy st) of
        None \<Rightarrow> []
      | Some (aesKey, es) \<Rightarrow>
          (case signError w c method version bizContent aesKey of
             Some e \<Rightarrow> []
           | None \<Rightarrow>
               sent (snd (uploadExchange w url
                            (envelope w c method version bizContent aesKey) f es)))))"
  by (simp add: UploadRequest_run Let_def
        split: option.split sum.split prod.split outcome.split)

lemma UploadRequest_entropy:
  "entropy (snd (UploadRequest w c url method version filePath bizContent st)) =
     (case osOpen w filePath of
        Inl e \<Rightarrow> entropy st
      | Inr f \<Rightarrow>
     (case getRandomString (ALLCHAR w) 16 (entropy st) of
        None \<Rightarrow> entropy st
      | Some (aesKey, es) \<Rightarrow>
          (case signError w c method version bizContent aesKey of
             Some e \<Rightarrow> es
           | None \<Rightarrow>
               entropy (snd (uploadExchange w url
                               (envelope w c method version bizContent aesKey) f es)))))"
  by (simp add: UploadRequest_run Let_def
        split: option.split sum.split prod.split outcome.split)

lemma UploadRequest_logged:
  "logged (snd (UploadRequest w c url method version filePath bizContent st)) =
     logged st @ (if Verbose w then [LogBizContent bizContent] else []) @
     (case osOpen w filePath of
        Inl e \<Rightarrow> [LogOpenFailed e]
      | Inr f \<Rightarrow>
     (case getRandomString (ALLCHAR w) 16 (entropy st) of
        None \<Rightarrow> []
      | Some (aesKey, es) \<Rightarrow>
          (if Verbose w
           then [LogSignBefore
                   (makeSignBefore w (encrypted w c method version bizContent aesKey))]
           else []) @
          (case signError w c method version bizContent aesKey of
             Some e \<Rightarrow> [LogSignFailed e]
           | None \<Rightarrow>
               logged (snd (uploadExchange w url
                              (envelope w c method version bizContent aesKey) f es)) @
               (case fst (uploadExchange w url
                            (envelope w c method version bizContent aesKey) f es) of
                  Panic \<Rightarrow> []
                | Return (Inl e) \<Rightarrow> []
                | Return (Inr response) \<Rightarrow>
                    if Verbose w then [LogResponse response] else []))))"
  by (simp add: UploadRequest_run Let_def
        split: option.split sum.split prod.split outcome.split)

text \<open>What the upload transport hands to the HTTP client and what entropy it leaves.\<close>

lemma uploadExchange_sent:
  "sent (snd (uploadExchange w url p f es)) =
     (case randomBoundary es of
        None \<Rightarrow> []
      | Some (boundary, es') \<Rightarrow>
          (case FileContents f of
             Inl e \<Rightarrow> []
           | Inr contents \<Rightarrow>
               (case NewRequest w url of
                  Some e \<Rightarrow> []
                | None \<Rightarrow>
                    [\<lparr>ReqMethod = ''POST'', ReqURL = url,
                      ContentType = ''multipart/form-data; boundary='' @ boundary,
                      ReqBody = MultipartForm (Base (FileName f)) contents (EncodeMap p)\<rparr>])))"
  by (simp add: uploadExchange_def sendUploadRequest_def idle_def Let_def
        split: sum.split option.split prod.split)

lemma uploadExchange_entropy:
  "entropy (snd (uploadExchange w url p f es)) =
     (if length es < 30 then es else drop 30 es)"
  by (simp add: uploadExchange_def sendUploadRequest_def randomBoundary_def idle_def Let_def
        split: sum.split option.split prod.split)

lemma uploadExchange_Panic:
  "fst (uploadExchange w url p f es) = Panic \<longleftrightarrow> length es < 30"
  by (simp add: uploadExchange_def sendUploadRequest_def randomBoundary_def idle_def Let_def
        split: sum.split option.split prod.split)

section \<open>The test double at work\<close>

lemma test_key:
  "getRandomString (ALLCHAR testWorld) 16 testTape = Some (''7253EZ0fm9fvO5iI'', [])"
  by (simp add: getRandomString_draws testWorld_def testTape_def)

lemma test_decode_raw:
  "DecodeString (CHR ''{'' # s) = ([], Some CorruptInputError)"
  by (simp add: DecodeString_def decodeMap_def encodeStd_def isNewline_def)

lemma test_decode_ok64: "DecodeString okJSON64 = (okJSON, None)"
  by (simp add: DecodeString_def okJSON64_def okJSON_def decodeMap_def encodeStd_def
        quantumBytes_def isNewline_def char_of_def bit_Suc_0_iff)

lemma test_decode_partial64: "DecodeString partialJSON64 = (partialJSON, None)"
  by (simp add: DecodeString_def partialJSON64_def partialJSON_def decodeMap_def encodeStd_def
        quantumBytes_def isNewline_def char_of_def bit_Suc_0_iff)

lemma test_decode_data: "DecodeString ''eyJvayI6dHJ1ZX0='' = (''{\"ok\":true}'', None)"
  by (simp add: DecodeString_def decodeMap_def encodeStd_def
        quantumBytes_def isNewline_def char_of_def bit_Suc_0_iff)

lemma test_exchange_pay:
  "fst (exchange testWorld ''https://api.test/pay'' p) = Inr okResponse"
  by (simp add: exchange_def sendRequest_def testWorld_def testMarshal_def testDo_def
        testUnmarshal_def okJSON_def refusedJSON_def partialJSON_def test_decode_raw Let_def)

lemma test_exchange_pay64:
  "fst (exchange testWorld ''https://api.test/pay64'' p) = Inr okResponse"
  by (simp add: exchange_def sendRequest_def testWorld_def testMarshal_def testDo_def
        testUnmarshal_def test_decode_ok64 Let_def)
     (simp add: okJSON_def)

lemma test_exchange_refuse:
  "fst (exchange testWorld ''https://api.test/refuse'' p) = Inr refusedResponse"
  by (simp add: exchange_def sendRequest_def testWorld_def testMarshal_def testDo_def
        testUnmarshal_def okJSON_def refusedJSON_def partialJSON_def test_decode_raw Let_def)

lemma test_boundary:
  "randomBoundary boundaryTape =
     Some (''ab12cd0763f0214005fa804d10c93a099024de6f0253be2f3cff00810e49'', [])"
  by (simp add: randomBoundary_def boundaryTape_def hexByte_def)

lemma test_upload_pay:
  "fst (uploadExchange testWorld ''https://api.test/pay'' p testFile boundaryTape)
     = Return (Inl (Failed UnmarshalStep (LibError ''unexpected end of JSON input'')))"
  by (simp add: uploadExchange_def sendUploadRequest_def idle_def test_boundary testFile_def
        testWorld_def testDo_def testUnmarshal_def okJSON_def test_decode_raw Let_def)

lemma test_upload_pay64:
  "fst (uploadExchange testWorld ''https://api.test/pay64'' p testFile boundaryTape)
     = Return (Inr okResponse)"
  by (simp add: uploadExchange_def sendUploadRequest_def idle_def test_boundary testFile_def
        testWorld_def testDo_def testUnmarshal_def test_decode_ok64 Let_def)
     (simp add: okJSON_def)

lemma test_upload_partial64:
  "fst (uploadExchange testWorld ''https://api.test/partial64'' p testFile boundaryTape)
     = Return (Inr partialResponse)"
  by (simp add: uploadExchange_def sendUploadRequest_def idle_def test_boundary testFile_def
        testWorld_def testDo_def testUnmarshal_def test_decode_partial64 Let_def)
     (simp add: okJSON_def partialJSON_def refusedJSON_def)

lemma test_key_upload:
  "getRandomString (ALLCHAR testWorld) 16 (testTape @ boundaryTape)
     = Some (''7253EZ0fm9fvO5iI'', boundaryTape)"
  by (simp add: getRandomString_draws testWorld_def testTape_def)

lemma test_open: "osOpen testWorld ''/tmp/receipt.pdf'' = Inr testFile"
  by (simp add: testWorld_def testFile_def)

lemma test_signError:
  "signError testWorld testConfig method version bizContent aesKey = None"
  by (simp add: signError_def testWorld_def testConfig_def)

lemma test_Decode:
  "Decode testWorld ''7253EZ0fm9fvO5iI'' ''eyJvayI6dHJ1ZX0='' = (Some [(''ok'', JBool True)], None)"
  by (simp add: Decode_def testWorld_def test_decode_data testUnmarshalJSON_def)


lemma test_successCode: "successCode testWorld = ''SUCCESS''"
  by (simp add: testWorld_def)

section \<open>The string that is signed\<close>

lemma exchange_sent:
  "sent (snd (exchange w url p)) =
     (case jsonMarshal w p of
        Inl e \<Rightarrow> []
      | Inr jsonData \<Rightarrow>
          (case NewRequest w url of
             Some e \<Rightarrow> []
           | None \<Rightarrow> [\<lparr>ReqMethod = ''POST'', ReqURL = url,
                       ContentType = ''application/json'',
                       ReqBody = JSONBody jsonData\<rparr>]))"
  by (simp add: exchange_def sendRequest_def idle_def Let_def
        split: sum.split option.split prod.split)

lemma envelope_signed:
  "Sign (envelope w c method version bizContent aesKey) =
     fst (RSASign w (PrivateKey c)
            (makeSignBefore w (envelope w c method version bizContent aesKey)))"
  by (simp add: envelope_def Let_def)

text \<open>
  C1. The string that is signed is the eight pairs \<open>timeStamp\<close>, \<open>method\<close>, \<open>charset\<close>,
  \<open>reqId\<close>, \<open>certId\<close>, \<open>version\<close>, \<open>check\<close>, \<open>bizContent\<close> in this order, each a key, \<open>=\<close>
  and the URL-encoded value, joined by \<open>&\<close>; \<open>CalcSign\<close> stores the signature of this
  string. When the key is drawn and the signing succeeds, the envelope that \<open>Request\<close>
  and \<open>UploadRequest\<close> hand to the HTTP client carries the signature of the string made
  from its own fields, so from the check and the business content as they are sent.
\<close>

theorem sign_string_fixed_order:
  assumes key: "getRandomString (ALLCHAR w) 16 (entropy st) = Some (aesKey, es)"
    and sign: "signError w c method version bizContent aesKey = None"
  shows "makeSignBefore w r =
           ''timeStamp='' @ urlEncode w (TimeStamp r)
           @ ''&method='' @ urlEncode w (Method r)
           @ ''&charset='' @ urlEncode w (Charset r)
           @ ''&reqId='' @ urlEncode w (ReqID r)
           @ ''&certId='' @ urlEncode w (CertID r)
           @ ''&version='' @ urlEncode w (Version r)
           @ ''&check='' @ urlEncode w (Check r)
           @ ''&bizContent='' @ urlEncode w (BizContent r)
         \<and> fst (CalcSign w k r s) = r\<lparr>Sign := fst (RSASign w k (makeSignBefore w r))\<rparr>
         \<and> (let p = envelope w c method version bizContent aesKey
            in Sign p = fst (RSASign w (PrivateKey c) (makeSignBefore w p))
             \<and> sent (snd (Request w c url method version bizContent st)) =
                 sent st @
                 (case jsonMarshal w p of
                    Inl e \<Rightarrow> []
                  | Inr jsonData \<Rightarrow>
                      (case NewRequest w url of
                         Some e \<Rightarrow> []
                       | None \<Rightarrow> [\<lparr>ReqMethod = ''POST'', ReqURL = url,
                                   ContentType = ''application/json'',
                                   ReqBody = JSONBody jsonData\<rparr>]))
             \<and> (case osOpen w filePath of
                  Inl e \<Rightarrow> sent (snd (UploadRequest w c url method version filePath
                                          bizContent st)) = sent st
                | Inr f \<Rightarrow>
                    sent (snd (UploadRequest w c url method version filePath
                                 bizContent st)) =
                    sent st @
                    (case randomBoundary es of
                       None \<Rightarrow> []
                     | Some (boundary, es') \<Rightarrow>
                    (case FileContents f of
                       Inl e \<Rightarrow> []
                     | Inr contents \<Rightarrow>
                         (case NewRequest w url of
                            Some e \<Rightarrow> []
                          | None \<Rightarrow>
                              [\<lparr>ReqMethod = ''POST'', ReqURL = url,
                                ContentType = ''multipart/form-data; boundary='' @ boundary,
                                ReqBody = MultipartForm (Base (FileName f)) contents
                                            (EncodeMap p)\<rparr>])))))"
proof -
  let ?p = "envelope w c method version bizContent aesKey"
  have plain: "sent (snd (Request w c url method version bizContent st)) =
                 sent st @ sent (snd (exchange w url ?p))"
    using key sign by (simp add: Request_sent)
  have upload: "sent (snd (UploadRequest w c url method version filePath bizContent st)) =
                  sent st @ sent (snd (uploadExchange w url ?p f es))"
    if "osOpen w filePath = Inr f" for f
    using key sign that by (simp add: UploadRequest_sent)
  have closed: "sent (snd (UploadRequest w c url method version filePath bizContent st)) = sent st"
    if "osOpen w filePath = Inl e" for e
    using that by (simp add: UploadRequest_sent)
  have up: "case osOpen w filePath of
              Inl e \<Rightarrow> sent (snd (UploadRequest w c url method version filePath
                                      bizContent st)) = sent st
            | Inr f \<Rightarrow>
                sent (snd (UploadRequest w c url method version filePath bizContent st)) =
                sent st @
                (case randomBoundary es of
                   None \<Rightarrow> []
                 | Some (boundary, es') \<Rightarrow>
                (case FileContents f of
                   Inl e \<Rightarrow> []
                 | Inr contents \<Rightarrow>
                     (case NewRequest w url of
                        Some e \<Rightarrow> []
                      | None \<Rightarrow>
                          [\<lparr>ReqMethod = ''POST'', ReqURL = url,
                            ContentType = ''multipart/form-data; boundary='' @ boundary,
                            ReqBody = MultipartForm (Base (FileName f)) contents
                                        (EncodeMap ?p)\<rparr>])))"
  proof (cases "osOpen w filePath")
    case (Inl e)
    with closed show ?thesis
      by simp
  next
    case (Inr f)
    with upload [OF Inr] show ?thesis
      by (simp add: uploadExchange_sent)
  qed
  have own: "Sign ?p = fst (RSASign w (PrivateKey c) (makeSignBefore w ?p))"
    by (rule envelope_signed)
  have stored: "fst (CalcSign w k r s) = r\<lparr>Sign := fst (RSASign w k (makeSignBefore w r))\<rparr>"
    by (simp add: CalcSign_eq)
  from plain have plain': "sent (snd (Request w c url method version bizContent st)) =
      sent st @
      (case jsonMarshal w ?p of
         Inl e \<Rightarrow> []
       | Inr jsonData \<Rightarrow>
           (case NewRequest w url of
              Some e \<Rightarrow> []
            | None \<Rightarrow> [\<lparr>ReqMethod = ''POST'', ReqURL = url,
                        ContentType = ''application/json'',
                        ReqBody = JSONBody jsonData\<rparr>]))"
    by (simp add: exchange_sent)
  from makeSignBefore_eq [of w r] stored own plain' up show ?thesis
    unfolding Let_def by blast
qed

lemma test_encrypted:
  "encrypted testWorld testConfig ''pay.create'' ''1.0'' ''{}'' ''7253EZ0fm9fvO5iI'' =
     \<lparr>TimeStamp = ''2026-10-30 20:56:00'', Method = ''pay.create'', Charset = ''utf-8'',
      Sign = [], Check = ''SWk1T3ZmOW1mMFpFMzUyNw=='', BizContent = ''e30='',
      ReqID = ''20261030205600123'', CertID = ''cert-1'', Version = ''1.0''\<rparr>"
  by (simp add: encrypted_def EncryptCheck_def EncryptBizContent_def NewRequestPayload_def
        testWorld_def testConfig_def sextet_def encodeStd_def)

theorem sign_string_fixed_order_witness:
  "getRandomString (ALLCHAR testWorld) 16 (entropy (idle testTape))
     = Some (''7253EZ0fm9fvO5iI'', [])
   \<and> signError testWorld testConfig ''pay.create'' ''1.0'' ''{}'' ''7253EZ0fm9fvO5iI'' = None
   \<and> makeSignBefore testWorld
         (encrypted testWorld testConfig ''pay.create'' ''1.0'' ''{}'' ''7253EZ0fm9fvO5iI'')
       = ''timeStamp=2026-10-30%2020:56:00&method=pay.create&charset=utf-8&reqId=20261030205600123&certId=cert-1&version=1.0&check=SWk1T3ZmOW1mMFpFMzUyNw%3D%3D&bizContent=e30%3D''
   \<and> Sign (envelope testWorld testConfig ''pay.create'' ''1.0'' ''{}'' ''7253EZ0fm9fvO5iI'')
       = fst (RSASign testWorld (PrivateKey testConfig)
                (makeSignBefore testWorld
                   (envelope testWorld testConfig ''pay.create'' ''1.0'' ''{}''
                      ''7253EZ0fm9fvO5iI'')))
   \<and> length (sent (snd (Request testWorld testConfig ''https://api.test/pay'' ''pay.create''
                            ''1.0'' ''{}'' (idle testTape)))) = 1"
proof -
  let ?r = "encrypted testWorld testConfig ''pay.create'' ''1.0'' ''{}'' ''7253EZ0fm9fvO5iI''"
  let ?p = "envelope testWorld testConfig ''pay.create'' ''1.0'' ''{}'' ''7253EZ0fm9fvO5iI''"
  have key: "getRandomString (ALLCHAR testWorld) 16 (entropy (idle testTape))
               = Some (''7253EZ0fm9fvO5iI'', [])"
    by (simp add: idle_def test_key)
  note fact = sign_string_fixed_order
                [OF key test_signError,
                 where r = ?r and url = "''https://api.test/pay''" and filePath = "[]"
                   and k = "[]" and s = "idle []",
                 unfolded Let_def]
  have enc: "urlEncode testWorld = testUrlEncode"
    by (simp add: testWorld_def)
  from fact have "makeSignBefore testWorld ?r =
      ''timeStamp='' @ urlEncode testWorld (TimeStamp ?r)
      @ ''&method='' @ urlEncode testWorld (Method ?r)
      @ ''&charset='' @ urlEncode testWorld (Charset ?r)
      @ ''&reqId='' @ urlEncode testWorld (ReqID ?r)
      @ ''&certId='' @ urlEncode testWorld (CertID ?r)
      @ ''&version='' @ urlEncode testWorld (Version ?r)
      @ ''&check='' @ urlEncode testWorld (Check ?r)
      @ ''&bizContent='' @ urlEncode testWorld (BizContent ?r)"
    by blast
  then have canon: "makeSignBefore testWorld ?r =
      ''timeStamp=2026-10-30%2020:56:00&method=pay.create&charset=utf-8&reqId=20261030205600123&certId=cert-1&version=1.0&check=SWk1T3ZmOW1mMFpFMzUyNw%3D%3D&bizContent=e30%3D''"
    by (simp add: test_encrypted enc testUrlEncode_def)
  from fact have own: "Sign ?p = fst (RSASign testWorld (PrivateKey testConfig)
                                       (makeSignBefore testWorld ?p))"
    by blast
  from fact have "sent (snd (Request testWorld testConfig ''https://api.test/pay''
                               ''pay.create'' ''1.0'' ''{}'' (idle testTape))) =
      sent (idle testTape) @
      (case jsonMarshal testWorld ?p of
         Inl e \<Rightarrow> []
       | Inr jsonData \<Rightarrow>
           (case NewRequest testWorld ''https://api.test/pay'' of
              Some e \<Rightarrow> []
            | None \<Rightarrow> [\<lparr>ReqMethod = ''POST'', ReqURL = ''https://api.test/pay'',
                        ContentType = ''application/json'',
                        ReqBody = JSONBody jsonData\<rparr>]))"
    by blast
  then have one: "length (sent (snd (Request testWorld testConfig ''https://api.test/pay''
                                      ''pay.create'' ''1.0'' ''{}'' (idle testTape)))) = 1"
    by (simp add: idle_def testWorld_def testMarshal_def)
  from key test_signError canon own one show ?thesis
    by blast
qed

section \<open>What the operations return\<close>

text \<open>Whatever the collaborators are, the first value returned is nil.\<close>

lemma Request_resp_nil:
  "fst (Request w c url method version bizContent st) = Return (resp, data, err)
   \<Longrightarrow> resp = None"
  by (auto simp: Request_fst split: option.splits sum.splits prod.splits if_splits)

lemma UploadRequest_resp_nil:
  "fst (UploadRequest w c url method version filePath bizContent st) = Return (resp, data, err)
   \<Longrightarrow> resp = None"
  by (auto simp: UploadRequest_fst
        split: option.splits sum.splits prod.splits outcome.splits if_splits)

text \<open>
  C2. The call below gets a response with the success code and decrypts its data;
  the first value it returns is nil all the same, although the transport has parsed
  the response.
\<close>

theorem Request_returns_nil_response:
  "fst (exchange testWorld ''https://api.test/pay''
          (envelope testWorld testConfig ''pay.create'' ''1.0'' ''{}'' ''7253EZ0fm9fvO5iI''))
     = Inr okResponse
   \<and> fst (Request testWorld testConfig ''https://api.test/pay'' ''pay.create'' ''1.0'' ''{}''
             (idle testTape))
       = Return (None, Some [(''ok'', JBool True)], None)"
  by (simp add: Request_run idle_def test_key test_signError test_exchange_pay test_Decode
        test_successCode okResponse_def Let_def)

text \<open>
  \<open>UploadRequest\<close> does not use the decryption: any function in its place gives the
  same results and the same state.
\<close>

lemma UploadRequest_never_decrypts:
  "UploadRequest (w\<lparr>AESDecryptECB := d\<rparr>) c url method version filePath bizContent st
     = UploadRequest w c url method version filePath bizContent st"
  by (simp add: UploadRequest_def CalcSign_eq sendUploadRequest_def EncryptCheck_def
        EncryptBizContent_def NewRequestPayload_def makeSignBefore_eq vlog_def logf_def
        Let_def split: option.split sum.split prod.split outcome.split)

text \<open>
  C3. The server answers the upload with the success code, the success sub-code and
  business data encrypted as they are for \<open>Request\<close>. \<open>Request\<close> decrypts them with the key
  of the call and returns the map; \<open>UploadRequest\<close> hands the ciphertext to the JSON
  parser and returns its error.
\<close>

theorem UploadRequest_skips_decryption:
  "fst (uploadExchange testWorld ''https://api.test/pay64''
          (envelope testWorld testConfig ''file.upload'' ''1.0'' ''{}'' ''7253EZ0fm9fvO5iI'')
          testFile boundaryTape)
     = Return (Inr okResponse)
   \<and> Code okResponse = successCode testWorld
   \<and> SubCode okResponse = successCode testWorld
   \<and> Decode testWorld ''7253EZ0fm9fvO5iI'' (BusinessData okResponse)
       = (Some [(''ok'', JBool True)], None)
   \<and> fst (Request testWorld testConfig ''https://api.test/pay64'' ''file.upload'' ''1.0''
             ''{}'' (idle testTape))
       = Return (None, Some [(''ok'', JBool True)], None)
   \<and> fst (UploadRequest testWorld testConfig ''https://api.test/pay64'' ''file.upload''
             ''1.0'' ''/tmp/receipt.pdf'' ''{}'' (idle (testTape @ boundaryTape)))
       = Return (None, None, Some (LibError ''invalid JSON''))"
proof -
  have parse: "UnmarshalJSON testWorld ''eyJvayI6dHJ1ZX0='' = (None, Some (LibError ''invalid JSON''))"
    by (simp add: testWorld_def testUnmarshalJSON_def)
  have up: "fst (UploadRequest testWorld testConfig ''https://api.test/pay64'' ''file.upload''
             ''1.0'' ''/tmp/receipt.pdf'' ''{}'' (idle (testTape @ boundaryTape)))
       = Return (None, None, Some (LibError ''invalid JSON''))"
    by (simp add: UploadRequest_fst test_open idle_def test_key_upload test_signError
          test_upload_pay64 test_successCode okResponse_def parse)
  have plain: "fst (Request testWorld testConfig ''https://api.test/pay64'' ''file.upload''
             ''1.0'' ''{}'' (idle testTape))
       = Return (None, Some [(''ok'', JBool True)], None)"
    by (simp add: Request_run idle_def test_key test_signError test_exchange_pay64 test_Decode
          test_successCode okResponse_def Let_def)
  show ?thesis
    using up plain test_upload_pay64
    by (simp add: test_successCode okResponse_def test_Decode)
qed

section \<open>Failures of the steps\<close>

text \<open>
  C4. The public key of the configuration is not a key, so the encryption of the
  symmetric key fails. \<open>Request\<close> goes on: it signs and sends an envelope whose check is
  empty, and returns the data of the response and no error.
\<close>

theorem Request_drops_encryption_error:
  "RSAEncrypt testWorld (PublicKey (testConfig\<lparr>PublicKey := []\<rparr>)) ''7253EZ0fm9fvO5iI''
     = Inl (LibError ''invalid public key'')
   \<and> snd (EncryptCheck testWorld (PublicKey (testConfig\<lparr>PublicKey := []\<rparr>))
             ''7253EZ0fm9fvO5iI'' r)
       = Some (LibError ''invalid public key'')
   \<and> Check (envelope testWorld (testConfig\<lparr>PublicKey := []\<rparr>) ''pay.create'' ''1.0'' ''{}''
               ''7253EZ0fm9fvO5iI'') = []
   \<and> fst (Request testWorld (testConfig\<lparr>PublicKey := []\<rparr>) ''https://api.test/pay''
             ''pay.create'' ''1.0'' ''{}'' (idle testTape))
       = Return (None, Some [(''ok'', JBool True)], None)
   \<and> length (sent (snd (Request testWorld (testConfig\<lparr>PublicKey := []\<rparr>)
                            ''https://api.test/pay'' ''pay.create'' ''1.0'' ''{}''
                            (idle testTape)))) = 1"
proof -
  let ?c = "testConfig\<lparr>PublicKey := []\<rparr>"
  have rsa0: "RSAEncrypt testWorld [] k = Inl (LibError ''invalid public key'')" for k
    by (simp add: testWorld_def)
  have rsa: "RSAEncrypt testWorld (PublicKey ?c) ''7253EZ0fm9fvO5iI''
               = Inl (LibError ''invalid public key'')"
    by (simp add: rsa0)
  have chk: "snd (EncryptCheck testWorld (PublicKey ?c) ''7253EZ0fm9fvO5iI'' r)
               = Some (LibError ''invalid public key'')"
    by (simp add: EncryptCheck_def rsa0)
  have env: "Check (envelope testWorld ?c ''pay.create'' ''1.0'' ''{}'' ''7253EZ0fm9fvO5iI'') = []"
    by (simp add: envelope_def encrypted_def EncryptCheck_def rsa0 EncryptBizContent_def
          NewRequestPayload_def Let_def split_beta)
  have serr: "signError testWorld ?c ''pay.create'' ''1.0'' ''{}'' ''7253EZ0fm9fvO5iI'' = None"
    by (simp add: signError_def testWorld_def testConfig_def)
  have sent1: "length (sent (snd (exchange testWorld ''https://api.test/pay'' p))) = 1" for p
    by (simp add: exchange_def sendRequest_def testWorld_def testMarshal_def testDo_def
          testUnmarshal_def okJSON_def test_decode_raw idle_def Let_def)
  have res: "fst (Request testWorld ?c ''https://api.test/pay'' ''pay.create'' ''1.0'' ''{}''
                    (idle testTape))
               = Return (None, Some [(''ok'', JBool True)], None)"
    by (simp add: Request_run idle_def test_key serr test_exchange_pay test_Decode
          test_successCode okResponse_def Let_def)
  have cnt: "length (sent (snd (Request testWorld ?c ''https://api.test/pay'' ''pay.create''
                                  ''1.0'' ''{}'' (idle testTape)))) = 1"
    using sent1
    by (simp add: Request_run idle_def test_key serr test_exchange_pay
          test_successCode okResponse_def Let_def)
  from rsa chk env res cnt show ?thesis
    by blast
qed

text \<open>
  C5. The server answers with the JSON text itself, not with its base64 form.
  \<open>sendRequest\<close> parses the text and returns the response. \<open>sendUploadRequest\<close> gets the
  same body and replaces it by what the failed decoding returns, which is empty: the
  JSON parser fails on it.
\<close>

theorem sendUploadRequest_loses_raw_body:
  "DecodeString okJSON = ([], Some CorruptInputError)
   \<and> fst (sendRequest testWorld ''https://api.test/pay'' p st) = Inr okResponse
   \<and> fst (sendUploadRequest testWorld ''https://api.test/pay'' p testFile
             (st\<lparr>entropy := boundaryTape\<rparr>))
       = Return (Inl (Failed UnmarshalStep (LibError ''unexpected end of JSON input'')))"
  by (simp add: sendRequest_exchange sendUploadRequest_exchange test_exchange_pay
        test_upload_pay)
     (simp add: okJSON_def test_decode_raw)

lemma without_decryption:
  "encrypted (w\<lparr>AESDecryptECB := d, UnmarshalJSON := u\<rparr>) c m v b k = encrypted w c m v b k"
  "makeSignBefore (w\<lparr>AESDecryptECB := d, UnmarshalJSON := u\<rparr>) r = makeSignBefore w r"
  "vlog (w\<lparr>AESDecryptECB := d, UnmarshalJSON := u\<rparr>) e st = vlog w e st"
  by (simp_all add: encrypted_def EncryptCheck_def EncryptBizContent_def NewRequestPayload_def
        makeSignBefore_eq vlog_def)

lemma exchange_without_decryption:
  "exchange (w\<lparr>AESDecryptECB := d, UnmarshalJSON := u\<rparr>) url p = exchange w url p"
  by (simp add: exchange_def sendRequest_def without_decryption Let_def
        split: sum.split option.split prod.split)

text \<open>
  C6. When the key is drawn, the signing succeeds, the HTTP exchange succeeds and the
  code of the response is not the success sentinel, \<open>Request\<close> returns no data and the
  error whose text is \<open>code:\<close>, the code, \<open> msg:\<close> and the message. The business data
  is not decrypted: whatever functions are put in the place of the decryption and of
  the parsing of the decrypted text, the call returns the same and leaves the same
  state.
\<close>

theorem Request_api_error:
  assumes key: "getRandomString (ALLCHAR w) 16 (entropy st) = Some (aesKey, es)"
    and sign: "signError w c method version bizContent aesKey = None"
    and http: "fst (exchange w url (envelope w c method version bizContent aesKey))
                 = Inr response"
    and code: "Code response \<noteq> successCode w"
  shows "fst (Request w c url method version bizContent st) =
           Return (None, None,
             Some (Errorf (''code:'' @ Code response @ '' msg:'' @ Msg response)))
         \<and> Request (w\<lparr>AESDecryptECB := d, UnmarshalJSON := u\<rparr>)
              c url method version bizContent st
           = Request w c url method version bizContent st"
proof -
  let ?w = "w\<lparr>AESDecryptECB := d, UnmarshalJSON := u\<rparr>"
  have result: "fst (Request w c url method version bizContent st) =
      Return (None, None,
        Some (Errorf (''code:'' @ Code response @ '' msg:'' @ Msg response)))"
    using key sign http code by (simp add: Request_run Let_def)
  have env: "envelope ?w c method version bizContent aesKey
               = envelope w c method version bizContent aesKey"
    by (simp add: envelope_def without_decryption)
  have serr: "signError ?w c method version bizContent aesKey
               = signError w c method version bizContent aesKey"
    by (simp add: signError_def without_decryption)
  have same: "Request ?w c url method version bizContent st
                = Request w c url method version bizContent st"
    using key sign http code
    by (simp add: Request_run [of ?w] Request_run [of w] env serr without_decryption
          exchange_without_decryption Let_def)
  from result same show ?thesis
    by simp
qed

theorem Request_api_error_witness:
  "getRandomString (ALLCHAR testWorld) 16 (entropy (idle testTape))
     = Some (''7253EZ0fm9fvO5iI'', [])
   \<and> signError testWorld testConfig ''pay.create'' ''1.0'' ''{}'' ''7253EZ0fm9fvO5iI'' = None
   \<and> fst (exchange testWorld ''https://api.test/refuse''
             (envelope testWorld testConfig ''pay.create'' ''1.0'' ''{}'' ''7253EZ0fm9fvO5iI''))
       = Inr refusedResponse
   \<and> Code refusedResponse \<noteq> successCode testWorld
   \<and> fst (Request testWorld testConfig ''https://api.test/refuse'' ''pay.create'' ''1.0'' ''{}''
             (idle testTape))
       = Return (None, None, Some (Errorf ''code:E001 msg:denied''))"
proof -
  have key: "getRandomString (ALLCHAR testWorld) 16 (entropy (idle testTape))
               = Some (''7253EZ0fm9fvO5iI'', [])"
    by (simp add: idle_def test_key)
  have code: "Code refusedResponse \<noteq> successCode testWorld"
    by (simp add: refusedResponse_def testWorld_def)
  have "fst (Request testWorld testConfig ''https://api.test/refuse'' ''pay.create'' ''1.0''
               ''{}'' (idle testTape))
          = Return (None, None,
              Some (Errorf (''code:'' @ Code refusedResponse
                            @ '' msg:'' @ Msg refusedResponse)))"
    using Request_api_error [OF key test_signError test_exchange_refuse code]
    by blast
  then show ?thesis
    using key code test_signError test_exchange_refuse
    by (simp add: refusedResponse_def)
qed

text \<open>
  C7. When the file opens, the key is drawn, the signing succeeds, the HTTP exchange
  succeeds and the response has the success sentinel as its code and another value as
  its sub-code, \<open>UploadRequest\<close> returns no error and no data.
\<close>

theorem UploadRequest_subcode:
  assumes opened: "osOpen w filePath = Inr f"
    and key: "getRandomString (ALLCHAR w) 16 (entropy st) = Some (aesKey, es)"
    and sign: "signError w c method version bizContent aesKey = None"
    and http: "fst (uploadExchange w url (envelope w c method version bizContent aesKey) f es)
                 = Return (Inr response)"
    and code: "Code response = successCode w"
    and subcode: "SubCode response \<noteq> successCode w"
  shows "fst (UploadRequest w c url method version filePath bizContent st)
           = Return (None, None, None)"
  using assms by (simp add: UploadRequest_fst)

theorem UploadRequest_subcode_witness:
  "osOpen testWorld ''/tmp/receipt.pdf'' = Inr testFile
   \<and> getRandomString (ALLCHAR testWorld) 16 (entropy (idle (testTape @ boundaryTape)))
       = Some (''7253EZ0fm9fvO5iI'', boundaryTape)
   \<and> signError testWorld testConfig ''file.upload'' ''1.0'' ''{}'' ''7253EZ0fm9fvO5iI'' = None
   \<and> fst (uploadExchange testWorld ''https://api.test/partial64''
             (envelope testWorld testConfig ''file.upload'' ''1.0'' ''{}'' ''7253EZ0fm9fvO5iI'')
             testFile boundaryTape)
       = Return (Inr partialResponse)
   \<and> Code partialResponse = successCode testWorld
   \<and> SubCode partialResponse \<noteq> successCode testWorld
   \<and> fst (UploadRequest testWorld testConfig ''https://api.test/partial64'' ''file.upload''
             ''1.0'' ''/tmp/receipt.pdf'' ''{}'' (idle (testTape @ boundaryTape)))
       = Return (None, None, None)"
proof -
  have key: "getRandomString (ALLCHAR testWorld) 16 (entropy (idle (testTape @ boundaryTape)))
               = Some (''7253EZ0fm9fvO5iI'', boundaryTape)"
    by (simp add: idle_def test_key_upload)
  have code: "Code partialResponse = successCode testWorld"
    by (simp add: partialResponse_def testWorld_def)
  have subcode: "SubCode partialResponse \<noteq> successCode testWorld"
    by (simp add: partialResponse_def testWorld_def)
  show ?thesis
    using UploadRequest_subcode
            [OF test_open key test_signError test_upload_partial64 code subcode]
          test_open key code subcode test_signError test_upload_partial64
    by blast
qed

section \<open>The symmetric key\<close>

text \<open>Other encryption functions change nothing but the two ciphertexts.\<close>

lemma recrypted_fields [simp]:
  "ALLCHAR (recrypted w rsa aes) = ALLCHAR w"
  "Verbose (recrypted w rsa aes) = Verbose w"
  "successCode (recrypted w rsa aes) = successCode w"
  "osOpen (recrypted w rsa aes) = osOpen w"
  "RSASign (recrypted w rsa aes) = RSASign w"
  "UnmarshalJSON (recrypted w rsa aes) = UnmarshalJSON w"
  "RSAEncrypt (recrypted w rsa aes) = rsa"
  "AESEncryptECB (recrypted w rsa aes) = aes"
  by (simp_all add: recrypted_def)

lemma recrypted_makeSignBefore [simp]:
  "makeSignBefore (recrypted w rsa aes) r = makeSignBefore w r"
  by (simp add: makeSignBefore_eq recrypted_def)

lemma recrypted_exchange [simp]:
  "exchange (recrypted w rsa aes) url p = exchange w url p"
  by (simp add: exchange_def sendRequest_def vlog_def recrypted_def Let_def
        split: sum.split option.split prod.split)

lemma recrypted_uploadExchange [simp]:
  "uploadExchange (recrypted w rsa aes) url p f es = uploadExchange w url p f es"
  by (simp add: uploadExchange_def sendUploadRequest_def vlog_def recrypted_def Let_def
        split: sum.split option.split prod.split)

lemma sameCiphertexts_envelope:
  assumes "sameCiphertexts w (recrypted w rsa aes) c bizContent k k'"
  shows "encrypted (recrypted w rsa aes) c method version bizContent k'
           = encrypted w c method version bizContent k"
    and "envelope (recrypted w rsa aes) c method version bizContent k'
           = envelope w c method version bizContent k"
    and "signError (recrypted w rsa aes) c method version bizContent k'
           = signError w c method version bizContent k"
proof -
  show enc: "encrypted (recrypted w rsa aes) c method version bizContent k'
               = encrypted w c method version bizContent k"
    using assms
    by (simp add: sameCiphertexts_def encrypted_def EncryptCheck_def EncryptBizContent_def
          NewRequestPayload_def recrypted_def split_beta split: sum.split)
  show "envelope (recrypted w rsa aes) c method version bizContent k'
          = envelope w c method version bizContent k"
    by (simp add: envelope_def enc)
  show "signError (recrypted w rsa aes) c method version bizContent k'
          = signError w c method version bizContent k"
    by (simp add: signError_def enc)
qed

text \<open>The fields of the envelope that is handed to the transport.\<close>

lemma envelope_Check:
  "Check (envelope w c method version bizContent aesKey) =
     (case RSAEncrypt w (PublicKey c) aesKey of
        Inl e \<Rightarrow> []
      | Inr check \<Rightarrow> EncodeToString check)"
  by (simp add: envelope_def encrypted_def EncryptCheck_def EncryptBizContent_def
        NewRequestPayload_def Let_def split_beta split: sum.split)

lemma envelope_fields:
  "envelope w c method version bizContent aesKey =
     \<lparr>TimeStamp = GetCurrentTimeStamp w, Method = method, Charset = ''utf-8'',
      Sign = fst (RSASign w (PrivateKey c)
                    (makeSignBefore w (envelope w c method version bizContent aesKey))),
      Check = (case RSAEncrypt w (PublicKey c) aesKey of
                 Inl e \<Rightarrow> []
               | Inr check \<Rightarrow> EncodeToString check),
      BizContent = fst (AESEncryptECB w bizContent aesKey),
      ReqID = CurrentYYMMDDHHMMSSS w, CertID = ConfCertID c, Version = version\<rparr>"
  by (simp add: envelope_def encrypted_def EncryptCheck_def EncryptBizContent_def
        NewRequestPayload_def Let_def split_beta split: sum.split)

text \<open>
  C8. When the alphabet is not empty and the random reader delivers the draws, a call
  of \<open>Request\<close> or \<open>UploadRequest\<close> draws a key of 16 characters from the entropy and
  uses up these draws, so that the next call draws its own (\<open>UploadRequest\<close> reads 30
  more numbers for the boundary of the form when it gets that far). In the envelope
  the check is the base64 form of the RSA encryption of the key (it is empty when
  that encryption fails), the business content is what the AES encryption under the
  key gives, the signature is that of the string made from these fields, and the
  other fields are made without the key. This envelope is what is sent: as the JSON
  text of the body by \<open>Request\<close>, field by field in the form by \<open>UploadRequest\<close>, whose
  field \<open>check\<close> is the check of the envelope. The key is kept nowhere and sent
  nowhere else: take any other pair of encryption functions and any other key that
  gives under them the two ciphertexts of the first run; a run with them that starts
  with the same log and the same requests sent and has the same entropy after the
  key builds the same envelope, writes the same log and sends the same requests.
\<close>

theorem key_fresh_and_confined:
  assumes alphabet: "ALLCHAR w \<noteq> []" and draws: "16 \<le> length (entropy st)"
  shows "getRandomString (ALLCHAR w) 16 (entropy st)
           = Some (drawnKey w st, drop 16 (entropy st))
         \<and> length (drawnKey w st) = 16
         \<and> entropy (snd (Request w c url method version bizContent st))
             = drop 16 (entropy st)
         \<and> entropy (snd (UploadRequest w c url method version filePath bizContent st))
             = (case osOpen w filePath of
                  Inl e \<Rightarrow> entropy st
                | Inr f \<Rightarrow>
                    (case signError w c method version bizContent (drawnKey w st) of
                       Some e \<Rightarrow> drop 16 (entropy st)
                     | None \<Rightarrow>
                         if length (entropy st) < 46 then drop 16 (entropy st)
                         else drop 46 (entropy st)))
         \<and> (let p = envelope w c method version bizContent (drawnKey w st)
            in p = \<lparr>TimeStamp = GetCurrentTimeStamp w, Method = method, Charset = ''utf-8'',
                    Sign = fst (RSASign w (PrivateKey c) (makeSignBefore w p)),
                    Check = (case RSAEncrypt w (PublicKey c) (drawnKey w st) of
                               Inl e \<Rightarrow> []
                             | Inr check \<Rightarrow> EncodeToString check),
                    BizContent = fst (AESEncryptECB w bizContent (drawnKey w st)),
                    ReqID = CurrentYYMMDDHHMMSSS w, CertID = ConfCertID c,
                    Version = version\<rparr>
             \<and> sent (snd (Request w c url method version bizContent st))
                 = sent st @
                   (case signError w c method version bizContent (drawnKey w st) of
                      Some e \<Rightarrow> []
                    | None \<Rightarrow>
                        (case jsonMarshal w p of
                           Inl e \<Rightarrow> []
                         | Inr jsonData \<Rightarrow>
                             (case NewRequest w url of
                                Some e \<Rightarrow> []
                              | None \<Rightarrow> [\<lparr>ReqMethod = ''POST'', ReqURL = url,
                                          ContentType = ''application/json'',
                                          ReqBody = JSONBody jsonData\<rparr>])))
             \<and> sent (snd (UploadRequest w c url method version filePath bizContent st))
                 = sent st @
                   (case osOpen w filePath of
                      Inl e \<Rightarrow> []
                    | Inr f \<Rightarrow>
                   (case signError w c method version bizContent (drawnKey w st) of
                      Some e \<Rightarrow> []
                    | None \<Rightarrow>
                   (case randomBoundary (drop 16 (entropy st)) of
                      None \<Rightarrow> []
                    | Some (boundary, es') \<Rightarrow>
                   (case FileContents f of
                      Inl e \<Rightarrow> []
                    | Inr contents \<Rightarrow>
                   (case NewRequest w url of
                      Some e \<Rightarrow> []
                    | None \<Rightarrow>
                        [\<lparr>ReqMethod = ''POST'', ReqURL = url,
                          ContentType = ''multipart/form-data; boundary='' @ boundary,
                          ReqBody =
                            MultipartForm (Base (FileName f)) contents
                              [''timeStamp'' \<mapsto> TimeStamp p,
                               ''method'' \<mapsto> Method p,
                               ''charset'' \<mapsto> Charset p,
                               ''sign'' \<mapsto> Sign p,
                               ''check'' \<mapsto> Check p,
                               ''bizContent'' \<mapsto> BizContent p,
                               ''reqId'' \<mapsto> ReqID p,
                               ''certId'' \<mapsto> CertID p,
                               ''version'' \<mapsto> Version p]\<rparr>]))))))
         \<and> (\<forall>rsa aes st' k'.
               logged st' = logged st \<and> sent st' = sent st
               \<and> getRandomString (ALLCHAR w) 16 (entropy st') = Some (k', drop 16 (entropy st))
               \<and> sameCiphertexts w (recrypted w rsa aes) c bizContent (drawnKey w st) k'
               \<longrightarrow>
               envelope (recrypted w rsa aes) c method version bizContent k'
                 = envelope w c method version bizContent (drawnKey w st)
               \<and> logged (snd (Request (recrypted w rsa aes) c url method version
                                 bizContent st'))
                   = logged (snd (Request w c url method version bizContent st))
               \<and> sent (snd (Request (recrypted w rsa aes) c url method version
                               bizContent st'))
                   = sent (snd (Request w c url method version bizContent st))
               \<and> logged (snd (UploadRequest (recrypted w rsa aes) c url method version
                                 filePath bizContent st'))
                   = logged (snd (UploadRequest w c url method version filePath
                                    bizContent st))
               \<and> sent (snd (UploadRequest (recrypted w rsa aes) c url method version
                               filePath bizContent st'))
                   = sent (snd (UploadRequest w c url method version filePath
                                  bizContent st)))"
proof -
  let ?k = "drawnKey w st"
  let ?p = "envelope w c method version bizContent ?k"
  have key: "getRandomString (ALLCHAR w) 16 (entropy st) = Some (?k, drop 16 (entropy st))"
    using getRandomString_draws [of "ALLCHAR w" 16 "entropy st"] alphabet draws
    by (simp add: drawnKey_def)
  have len: "length ?k = 16"
    using draws by (simp add: drawnKey_def)
  have ent: "entropy (snd (Request w c url method version bizContent st))
               = drop 16 (entropy st)"
    by (simp add: Request_entropy key)
  have uent: "entropy (snd (UploadRequest w c url method version filePath bizContent st))
                = (case osOpen w filePath of
                     Inl e \<Rightarrow> entropy st
                   | Inr f \<Rightarrow>
                       (case signError w c method version bizContent ?k of
                          Some e \<Rightarrow> drop 16 (entropy st)
                        | None \<Rightarrow>
                            if length (entropy st) < 46 then drop 16 (entropy st)
                            else drop 46 (entropy st)))"
    using draws
    by (auto simp add: UploadRequest_entropy key uploadExchange_entropy
          split: sum.split option.split)
  have fields: "?p = \<lparr>TimeStamp = GetCurrentTimeStamp w, Method = method, Charset = ''utf-8'',
                    Sign = fst (RSASign w (PrivateKey c) (makeSignBefore w ?p)),
                    Check = (case RSAEncrypt w (PublicKey c) ?k of
                               Inl e \<Rightarrow> []
                             | Inr check \<Rightarrow> EncodeToString check),
                    BizContent = fst (AESEncryptECB w bizContent ?k),
                    ReqID = CurrentYYMMDDHHMMSSS w, CertID = ConfCertID c,
                    Version = version\<rparr>"
    by (rule envelope_fields)
  have snt: "sent (snd (Request w c url method version bizContent st))
               = sent st @
                 (case signError w c method version bizContent ?k of
                    Some e \<Rightarrow> []
                  | None \<Rightarrow>
                      (case jsonMarshal w ?p of
                         Inl e \<Rightarrow> []
                       | Inr jsonData \<Rightarrow>
                           (case NewRequest w url of
                              Some e \<Rightarrow> []
                            | None \<Rightarrow> [\<lparr>ReqMethod = ''POST'', ReqURL = url,
                                        ContentType = ''application/json'',
                                        ReqBody = JSONBody jsonData\<rparr>])))"
    by (simp add: Request_sent key exchange_sent split: option.split)
  have usnt: "sent (snd (UploadRequest w c url method version filePath bizContent st))
                = sent st @
                  (case osOpen w filePath of
                     Inl e \<Rightarrow> []
                   | Inr f \<Rightarrow>
                  (case signError w c method version bizContent ?k of
                     Some e \<Rightarrow> []
                   | None \<Rightarrow>
                  (case randomBoundary (drop 16 (entropy st)) of
                     None \<Rightarrow> []
                   | Some (boundary, es') \<Rightarrow>
                  (case FileContents f of
                     Inl e \<Rightarrow> []
                   | Inr contents \<Rightarrow>
                  (case NewRequest w url of
                     Some e \<Rightarrow> []
                   | None \<Rightarrow>
                       [\<lparr>ReqMethod = ''POST'', ReqURL = url,
                         ContentType = ''multipart/form-data; boundary='' @ boundary,
                         ReqBody =
                           MultipartForm (Base (FileName f)) contents
                             [''timeStamp'' \<mapsto> TimeStamp ?p,
                              ''method'' \<mapsto> Method ?p,
                              ''charset'' \<mapsto> Charset ?p,
                              ''sign'' \<mapsto> Sign ?p,
                              ''check'' \<mapsto> Check ?p,
                              ''bizContent'' \<mapsto> BizContent ?p,
                              ''reqId'' \<mapsto> ReqID ?p,
                              ''certId'' \<mapsto> CertID ?p,
                              ''version'' \<mapsto> Version ?p]\<rparr>])))))"
    by (simp add: UploadRequest_sent key uploadExchange_sent EncodeMap_def
          split: sum.split option.split prod.split)
  have other:
    "envelope (recrypted w rsa aes) c method version bizContent k' = ?p
     \<and> logged (snd (Request (recrypted w rsa aes) c url method version bizContent st'))
         = logged (snd (Request w c url method version bizContent st))
     \<and> sent (snd (Request (recrypted w rsa aes) c url method version bizContent st'))
         = sent (snd (Request w c url method version bizContent st))
     \<and> logged (snd (UploadRequest (recrypted w rsa aes) c url method version filePath
                       bizContent st'))
         = logged (snd (UploadRequest w c url method version filePath bizContent st))
     \<and> sent (snd (UploadRequest (recrypted w rsa aes) c url method version filePath
                     bizContent st'))
         = sent (snd (UploadRequest w c url method version filePath bizContent st))"
    if same: "logged st' = logged st" "sent st' = sent st"
      and key': "getRandomString (ALLCHAR w) 16 (entropy st') = Some (k', drop 16 (entropy st))"
      and ciph: "sameCiphertexts w (recrypted w rsa aes) c bizContent ?k k'"
    for rsa aes st' k'
    using same
    by (simp add: Request_logged Request_sent UploadRequest_logged UploadRequest_sent
          key key' sameCiphertexts_envelope [OF ciph]
          split: option.split sum.split outcome.split)
  from other have two:
    "\<forall>rsa aes st' k'.
       logged st' = logged st \<and> sent st' = sent st
       \<and> getRandomString (ALLCHAR w) 16 (entropy st') = Some (k', drop 16 (entropy st))
       \<and> sameCiphertexts w (recrypted w rsa aes) c bizContent ?k k'
       \<longrightarrow>
       envelope (recrypted w rsa aes) c method version bizContent k' = ?p
       \<and> logged (snd (Request (recrypted w rsa aes) c url method version bizContent st'))
           = logged (snd (Request w c url method version bizContent st))
       \<and> sent (snd (Request (recrypted w rsa aes) c url method version bizContent st'))
           = sent (snd (Request w c url method version bizContent st))
       \<and> logged (snd (UploadRequest (recrypted w rsa aes) c url method version filePath
                         bizContent st'))
           = logged (snd (UploadRequest w c url method version filePath bizContent st))
       \<and> sent (snd (UploadRequest (recrypted w rsa aes) c url method version filePath
                       bizContent st'))
           = sent (snd (UploadRequest w c url method version filePath bizContent st))"
    by (intro allI impI) (elim conjE, rule other)
  show ?thesis
    unfolding Let_def
    by (intro conjI key len ent uent fields snt usnt two)
qed

lemma test_key_rev:
  "getRandomString (ALLCHAR testWorld) 16 (rev testTape @ boundaryTape)
     = Some (''Ii5Ovf9mf0ZE3527'', boundaryTape)"
  by (simp add: getRandomString_draws testWorld_def testTape_def)

lemma test_drawnKey:
  "drawnKey testWorld (idle (testTape @ boundaryTape)) = ''7253EZ0fm9fvO5iI''"
  by (simp add: drawnKey_def idle_def testWorld_def testTape_def)

lemma test_sameCiphertexts:
  "sameCiphertexts testWorld testWorld2 testConfig ''{}''
     ''7253EZ0fm9fvO5iI'' ''Ii5Ovf9mf0ZE3527''"
  by (simp add: sameCiphertexts_def testWorld2_def)

lemma test_Check:
  "Check (envelope testWorld testConfig ''file.upload'' ''1.0'' ''{}'' ''7253EZ0fm9fvO5iI'')
     = ''SWk1T3ZmOW1mMFpFMzUyNw==''"
  by (simp add: envelope_Check testWorld_def testConfig_def sextet_def encodeStd_def)

lemma sent_idle: "sent (idle es) = []"
  by (simp add: idle_def)

lemma test_NewRequest: "NewRequest testWorld url = None"
  by (simp add: testWorld_def)

theorem key_fresh_and_confined_witness:
  "ALLCHAR testWorld \<noteq> [] \<and> 16 \<le> length (entropy (idle (testTape @ boundaryTape)))
   \<and> getRandomString (ALLCHAR testWorld) 16 (entropy (idle (testTape @ boundaryTape)))
       = Some (''7253EZ0fm9fvO5iI'', drop 16 (entropy (idle (testTape @ boundaryTape))))
   \<and> logged (idle (rev testTape @ boundaryTape)) = logged (idle (testTape @ boundaryTape))
   \<and> sent (idle (rev testTape @ boundaryTape)) = sent (idle (testTape @ boundaryTape))
   \<and> getRandomString (ALLCHAR testWorld) 16 (entropy (idle (rev testTape @ boundaryTape)))
       = Some (''Ii5Ovf9mf0ZE3527'', drop 16 (entropy (idle (testTape @ boundaryTape))))
   \<and> sameCiphertexts testWorld testWorld2 testConfig ''{}''
         ''7253EZ0fm9fvO5iI'' ''Ii5Ovf9mf0ZE3527''
   \<and> ''Ii5Ovf9mf0ZE3527'' \<noteq> ''7253EZ0fm9fvO5iI''
   \<and> Check (envelope testWorld testConfig ''file.upload'' ''1.0'' ''{}'' ''7253EZ0fm9fvO5iI'')
       = ''SWk1T3ZmOW1mMFpFMzUyNw==''
   \<and> (envelope testWorld2 testConfig ''file.upload'' ''1.0'' ''{}'' ''Ii5Ovf9mf0ZE3527''
        = envelope testWorld testConfig ''file.upload'' ''1.0'' ''{}'' ''7253EZ0fm9fvO5iI''
      \<and> logged (snd (Request testWorld2 testConfig ''https://api.test/pay64''
                        ''file.upload'' ''1.0'' ''{}'' (idle (rev testTape @ boundaryTape))))
          = logged (snd (Request testWorld testConfig ''https://api.test/pay64''
                          ''file.upload'' ''1.0'' ''{}'' (idle (testTape @ boundaryTape))))
      \<and> sent (snd (Request testWorld2 testConfig ''https://api.test/pay64''
                      ''file.upload'' ''1.0'' ''{}'' (idle (rev testTape @ boundaryTape))))
          = sent (snd (Request testWorld testConfig ''https://api.test/pay64''
                        ''file.upload'' ''1.0'' ''{}'' (idle (testTape @ boundaryTape))))
      \<and> logged (snd (UploadRequest testWorld2 testConfig ''https://api.test/pay64''
                        ''file.upload'' ''1.0'' ''/tmp/receipt.pdf'' ''{}''
                        (idle (rev testTape @ boundaryTape))))
          = logged (snd (UploadRequest testWorld testConfig ''https://api.test/pay64''
                          ''file.upload'' ''1.0'' ''/tmp/receipt.pdf'' ''{}''
                          (idle (testTape @ boundaryTape))))
      \<and> sent (snd (UploadRequest testWorld2 testConfig ''https://api.test/pay64''
                      ''file.upload'' ''1.0'' ''/tmp/receipt.pdf'' ''{}''
                      (idle (rev testTape @ boundaryTape))))
          = sent (snd (UploadRequest testWorld testConfig ''https://api.test/pay64''
                        ''file.upload'' ''1.0'' ''/tmp/receipt.pdf'' ''{}''
                        (idle (testTape @ boundaryTape)))))
   \<and> length (sent (snd (UploadRequest testWorld testConfig ''https://api.test/pay64''
                            ''file.upload'' ''1.0'' ''/tmp/receipt.pdf'' ''{}''
                            (idle (testTape @ boundaryTape))))) = 1"
proof -
  let ?st = "idle (testTape @ boundaryTape)"
  let ?st' = "idle (rev testTape @ boundaryTape)"
  let ?rsa = "\<lambda>pubKey d. RSAEncrypt testWorld pubKey (rev d)"
  let ?aes = "\<lambda>plain k. AESEncryptECB testWorld plain (rev k)"
  have w2: "recrypted testWorld ?rsa ?aes = testWorld2"
    by (simp add: testWorld2_def)
  have alphabet: "ALLCHAR testWorld \<noteq> []"
    by (simp add: testWorld_def)
  have draws: "16 \<le> length (entropy ?st)"
    by (simp add: idle_def testTape_def)
  have rest: "drop 16 (entropy ?st) = boundaryTape"
    by (simp add: idle_def testTape_def)
  have same1: "logged ?st' = logged ?st"
    by (simp add: idle_def)
  have same2: "sent ?st' = sent ?st"
    by (simp add: idle_def)
  have key': "getRandomString (ALLCHAR testWorld) 16 (entropy ?st')
                = Some (''Ii5Ovf9mf0ZE3527'', drop 16 (entropy ?st))"
    by (simp only: rest) (simp add: idle_def test_key_rev)
  have differ: "''Ii5Ovf9mf0ZE3527'' \<noteq> ''7253EZ0fm9fvO5iI''"
    by simp
  have ciph: "sameCiphertexts testWorld (recrypted testWorld ?rsa ?aes) testConfig ''{}''
                (drawnKey testWorld ?st) ''Ii5Ovf9mf0ZE3527''"
    by (simp only: w2 test_drawnKey test_sameCiphertexts)
  note inst = key_fresh_and_confined
                [OF alphabet draws,
                 where c = testConfig and url = "''https://api.test/pay64''"
                   and version = "''1.0''" and bizContent = "''{}''"
                   and filePath = "''/tmp/receipt.pdf''", unfolded Let_def]
  note drawn = inst [THEN conjunct1]
  note usent = inst [THEN conjunct2, THEN conjunct2, THEN conjunct2, THEN conjunct2,
                     THEN conjunct1, THEN conjunct2, THEN conjunct2]
  note other = inst [THEN conjunct2, THEN conjunct2, THEN conjunct2, THEN conjunct2,
                     THEN conjunct2, rule_format,
                     OF conjI [OF same1 conjI [OF same2 conjI [OF key' ciph]]]]
  from drawn have key: "getRandomString (ALLCHAR testWorld) 16 (entropy ?st)
                          = Some (''7253EZ0fm9fvO5iI'', drop 16 (entropy ?st))"
    by (simp only: test_drawnKey)
  from other have run2:
    "envelope testWorld2 testConfig ''file.upload'' ''1.0'' ''{}'' ''Ii5Ovf9mf0ZE3527''
       = envelope testWorld testConfig ''file.upload'' ''1.0'' ''{}'' ''7253EZ0fm9fvO5iI''
     \<and> logged (snd (Request testWorld2 testConfig ''https://api.test/pay64''
                        ''file.upload'' ''1.0'' ''{}'' ?st'))
         = logged (snd (Request testWorld testConfig ''https://api.test/pay64''
                          ''file.upload'' ''1.0'' ''{}'' ?st))
     \<and> sent (snd (Request testWorld2 testConfig ''https://api.test/pay64''
                      ''file.upload'' ''1.0'' ''{}'' ?st'))
         = sent (snd (Request testWorld testConfig ''https://api.test/pay64''
                        ''file.upload'' ''1.0'' ''{}'' ?st))
     \<and> logged (snd (UploadRequest testWorld2 testConfig ''https://api.test/pay64''
                        ''file.upload'' ''1.0'' ''/tmp/receipt.pdf'' ''{}'' ?st'))
         = logged (snd (UploadRequest testWorld testConfig ''https://api.test/pay64''
                          ''file.upload'' ''1.0'' ''/tmp/receipt.pdf'' ''{}'' ?st))
     \<and> sent (snd (UploadRequest testWorld2 testConfig ''https://api.test/pay64''
                      ''file.upload'' ''1.0'' ''/tmp/receipt.pdf'' ''{}'' ?st'))
         = sent (snd (UploadRequest testWorld testConfig ''https://api.test/pay64''
                        ''file.upload'' ''1.0'' ''/tmp/receipt.pdf'' ''{}'' ?st))"
    by (simp only: w2 test_drawnKey)
  have one: "length (sent (snd (UploadRequest testWorld testConfig ''https://api.test/pay64''
                            ''file.upload'' ''1.0'' ''/tmp/receipt.pdf'' ''{}'' ?st))) = 1"
    by (simp add: usent test_open test_signError rest test_boundary test_NewRequest
          testFile_def sent_idle)
  show ?thesis
    by (intro conjI alphabet draws key same1 same2 key' test_sameCiphertexts differ
          test_Check run2 one)
qed

section \<open>The logging flag\<close>

lemma Verbose_envelope:
  "encrypted (w\<lparr>Verbose := a\<rparr>) c m v b k = encrypted w c m v b k"
  "envelope (w\<lparr>Verbose := a\<rparr>) c m v b k = envelope w c m v b k"
  "signError (w\<lparr>Verbose := a\<rparr>) c m v b k = signError w c m v b k"
  "Decode (w\<lparr>Verbose := a\<rparr>) k d = Decode w k d"
  by (simp_all add: envelope_def signError_def encrypted_def EncryptCheck_def
        EncryptBizContent_def NewRequestPayload_def makeSignBefore_eq Decode_def Let_def
        split: sum.split)

lemma Verbose_exchange:
  "fst (exchange (w\<lparr>Verbose := a\<rparr>) url p) = fst (exchange w url p)"
  "sent (snd (exchange (w\<lparr>Verbose := a\<rparr>) url p)) = sent (snd (exchange w url p))"
  by (simp_all add: exchange_def sendRequest_def vlog_def logf_def idle_def Let_def
        split: sum.split option.split prod.split)

lemma Verbose_uploadExchange:
  "fst (uploadExchange (w\<lparr>Verbose := a\<rparr>) url p f es) = fst (uploadExchange w url p f es)"
  "sent (snd (uploadExchange (w\<lparr>Verbose := a\<rparr>) url p f es))
     = sent (snd (uploadExchange w url p f es))"
  "entropy (snd (uploadExchange (w\<lparr>Verbose := a\<rparr>) url p f es))
     = entropy (snd (uploadExchange w url p f es))"
  by (simp_all add: uploadExchange_def sendUploadRequest_def vlog_def logf_def idle_def Let_def
        split: sum.split option.split prod.split)

lemma Verbose_Request:
  "fst (Request (w\<lparr>Verbose := a\<rparr>) c url method version bizContent st)
     = fst (Request w c url method version bizContent st)"
  "sent (snd (Request (w\<lparr>Verbose := a\<rparr>) c url method version bizContent st))
     = sent (snd (Request w c url method version bizContent st))"
  "entropy (snd (Request (w\<lparr>Verbose := a\<rparr>) c url method version bizContent st))
     = entropy (snd (Request w c url method version bizContent st))"
  by (simp_all add: Request_fst Request_sent Request_entropy Verbose_envelope Verbose_exchange
        split: option.split sum.split prod.split)

lemma Verbose_UploadRequest:
  "fst (UploadRequest (w\<lparr>Verbose := a\<rparr>) c url method version filePath bizContent st)
     = fst (UploadRequest w c url method version filePath bizContent st)"
  "sent (snd (UploadRequest (w\<lparr>Verbose := a\<rparr>) c url method version filePath bizContent st))
     = sent (snd (UploadRequest w c url method version filePath bizContent st))"
  "entropy (snd (UploadRequest (w\<lparr>Verbose := a\<rparr>) c url method version filePath
                   bizContent st))
     = entropy (snd (UploadRequest w c url method version filePath bizContent st))"
  by (simp_all add: UploadRequest_fst UploadRequest_sent UploadRequest_entropy
        Verbose_envelope Verbose_uploadExchange
        split: option.split sum.split prod.split outcome.split)

text \<open>
  C10. Two runs of \<open>Request\<close>, or of \<open>UploadRequest\<close>, that differ in the value of
  \<open>Verbose\<close> only (same arguments, configuration, clock, entropy, collaborators and
  server) return the same three values, hand the same requests to the HTTP client and
  draw the same entropy; the envelope they compute is the same. Only the log differs.
\<close>

theorem Verbose_not_observed:
  "fst (Request (w\<lparr>Verbose := a\<rparr>) c url method version bizContent st)
     = fst (Request (w\<lparr>Verbose := b\<rparr>) c url method version bizContent st)
   \<and> sent (snd (Request (w\<lparr>Verbose := a\<rparr>) c url method version bizContent st))
     = sent (snd (Request (w\<lparr>Verbose := b\<rparr>) c url method version bizContent st))
   \<and> entropy (snd (Request (w\<lparr>Verbose := a\<rparr>) c url method version bizContent st))
     = entropy (snd (Request (w\<lparr>Verbose := b\<rparr>) c url method version bizContent st))
   \<and> fst (UploadRequest (w\<lparr>Verbose := a\<rparr>) c url method version filePath bizContent st)
     = fst (UploadRequest (w\<lparr>Verbose := b\<rparr>) c url method version filePath bizContent st)
   \<and> sent (snd (UploadRequest (w\<lparr>Verbose := a\<rparr>) c url method version filePath
                   bizContent st))
     = sent (snd (UploadRequest (w\<lparr>Verbose := b\<rparr>) c url method version filePath
                   bizContent st))
   \<and> entropy (snd (UploadRequest (w\<lparr>Verbose := a\<rparr>) c url method version filePath
                      bizContent st))
     = entropy (snd (UploadRequest (w\<lparr>Verbose := b\<rparr>) c url method version filePath
                      bizContent st))
   \<and> envelope (w\<lparr>Verbose := a\<rparr>) c method version bizContent aesKey
     = envelope (w\<lparr>Verbose := b\<rparr>) c method version bizContent aesKey"
  by (simp only: Verbose_Request Verbose_UploadRequest Verbose_envelope simp_thms)

theorem Verbose_not_observed_witness:
  "Verbose (testWorld\<lparr>Verbose := True\<rparr>) \<noteq> Verbose (testWorld\<lparr>Verbose := False\<rparr>)
   \<and> fst (Request (testWorld\<lparr>Verbose := True\<rparr>) testConfig ''https://api.test/pay''
          ''pay.create'' ''1.0'' ''{}'' (idle testTape))
     = fst (Request (testWorld\<lparr>Verbose := False\<rparr>) testConfig ''https://api.test/pay''
              ''pay.create'' ''1.0'' ''{}'' (idle testTape))
   \<and> sent (snd (Request (testWorld\<lparr>Verbose := True\<rparr>) testConfig ''https://api.test/pay''
                    ''pay.create'' ''1.0'' ''{}'' (idle testTape)))
     = sent (snd (Request (testWorld\<lparr>Verbose := False\<rparr>) testConfig ''https://api.test/pay''
                    ''pay.create'' ''1.0'' ''{}'' (idle testTape)))
   \<and> fst (Request (testWorld\<lparr>Verbose := False\<rparr>) testConfig ''https://api.test/pay''
             ''pay.create'' ''1.0'' ''{}'' (idle testTape))
     = Return (None, Some [(''ok'', JBool True)], None)"
proof -
  have v: "testWorld\<lparr>Verbose := False\<rparr> = testWorld"
    by (simp add: testWorld_def)
  have differ: "Verbose (testWorld\<lparr>Verbose := True\<rparr>)
                  \<noteq> Verbose (testWorld\<lparr>Verbose := False\<rparr>)"
    by simp
  have "fst (Request testWorld testConfig ''https://api.test/pay''
               ''pay.create'' ''1.0'' ''{}'' (idle testTape))
          = Return (None, Some [(''ok'', JBool True)], None)"
    by (simp add: Request_fst idle_def test_key test_signError test_exchange_pay test_Decode
          test_successCode okResponse_def)
  then have quiet: "fst (Request (testWorld\<lparr>Verbose := False\<rparr>) testConfig
                           ''https://api.test/pay'' ''pay.create'' ''1.0'' ''{}''
                           (idle testTape))
                      = Return (None, Some [(''ok'', JBool True)], None)"
    by (simp only: v)
  from Verbose_not_observed
         [where w = testWorld and a = True and b = False and c = testConfig
            and url = "''https://api.test/pay''" and version = "''1.0''"
            and bizContent = "''{}''" and st = "idle testTape"
            and filePath = "[]" and aesKey = "[]"]
       quiet differ
  show ?thesis
    by blast
qed

end
